theory Spec2Isabelle
  imports Complex_Main
begin

section \<open>Data model\<close>

subsection \<open>Script values and errors\<close>

text \<open>
  A level script is a JavaScript array of lines, each line an array of numbers, strings,
  nested arrays and \<open>{x, y}\<close> point objects. A \<open>throw\<close> of the interpreter is a value of
  type \<open>error\<close>: \<open>NotImplemented\<close> is \<open>new Error("Not Implemented")\<close>, \<open>TypeError\<close> is the
  exception JavaScript raises when a method is called on a value that has none.
\<close>

datatype jsval = JNum real | JStr string | JArr "jsval list" | JPoint real real

datatype error = NotImplemented | TypeError

text \<open>Sequencing of calls that may throw.\<close>

definition bind :: "error + 'a \<Rightarrow> ('a \<Rightarrow> error + 'b) \<Rightarrow> error + 'b" where
  "bind m f = (case m of Inl err \<Rightarrow> Inl err | Inr v \<Rightarrow> f v)"

text \<open>
  Numeric positions of a script line hold numbers and point lists hold \<open>{x, y}\<close> objects;
  the statements below are about such lines. For any other value the code keeps the value
  as it is and JavaScript coerces it at each use. The model does not follow that coercion:
  \<open>num_of\<close> and \<open>point_of\<close> read such a value as 0.
\<close>

fun num_of :: "jsval \<Rightarrow> real" where
  "num_of (JNum r) = r"
| "num_of _ = 0"

fun point_of :: "jsval \<Rightarrow> real \<times> real" where
  "point_of (JPoint px py) = (px, py)"
| "point_of _ = (0, 0)"

definition startsWith :: "string \<Rightarrow> string \<Rightarrow> bool" where
  "startsWith t p = (take (length p) t = p)"

subsection \<open>Entities\<close>

text \<open>The JavaScript classes of the catalog, and \<open>instanceof\<close> along their \<open>extends\<close> chains.\<close>

datatype shapeClass =
  Triangle | StealthTriangle | ArmoredTriangle | Square | Area | Architecture
  | ClearFriendlies | Intangible | SlowTime

fun instanceof :: "shapeClass \<Rightarrow> shapeClass \<Rightarrow> bool" where
  "instanceof c Triangle = (c = Triangle \<or> c = StealthTriangle \<or> c = ArmoredTriangle)"
| "instanceof c Square = (c = Square \<or> c = Area)"
| "instanceof c d = (c = d)"

text \<open>The hit region that \<open>createGraphics\<close> attaches as \<open>graphics.geom\<close>.\<close>

datatype geom =
  GeomTriangle real real real real real real
  | GeomRectangle real real real real
  | GeomPolygon "(real \<times> real) list"

text \<open>
  One record per \<open>Shape\<close> object. \<open>oid\<close> is the identity of the JavaScript object (what
  \<open>===\<close> and \<open>indexOf\<close> compare); \<open>shape_id\<close> is the diagnostic \<open>id\<close> taken from
  \<open>Shape.staticId\<close>; \<open>label\<close> is the \<open>shapeType\<close> string captured by the handlers that
  \<open>spawnShape\<close> registers; \<open>shape_x\<close>, \<open>shape_y\<close> are the fields \<open>x\<close>, \<open>y\<close>.
  \<open>healthPoints\<close> is \<open>None\<close> where JavaScript holds \<open>undefined\<close> or \<open>NaN\<close>.
\<close>

record shape =
  cls :: shapeClass
  oid :: nat
  label :: string
  shape_id :: nat
  shape_x :: real
  shape_y :: real
  velocityX :: real
  velocityY :: real
  angularVelocity :: real
  secondVelocityX :: real
  secondVelocityY :: real
  circularVelocityX :: real
  circularVelocityY :: real
  scaleFactor :: real
  rotation :: real
  toBeRemoved :: bool
  dying :: bool
  healthPoints :: "int option"
  geom :: geom

subsection \<open>Scheduled calls and the resource bar\<close>

text \<open>
  The pending \<open>scene.time.delayedCall\<close>s. An animation start carries the identity of the
  entity whose closure it holds, its delay (already divided by the difficulty multiplier)
  and its parameters.
\<close>

datatype timerEvent =
  VelocityStart nat real "real list"
  | ScaleStart nat real "real list"
  | MovementStart nat real "real list"
  | CircularStart nat real "real list"
  | BlackoutStart real real real
  | NextAction bool
  | IntangibleTimeout
  | SlowtimeTimeout real


text \<open>The alpha tweens of the resource bar; each runs 500 ms.\<close>

datatype hbTween = FadeInBackground | FadeInFill | FadeOutBackground | FadeOutFill

text \<open>
  \<open>dyingTween = Some (from, duration)\<close> is the running depletion tween, a linear ramp of the
  fill's \<open>scaleX\<close> from \<open>from\<close> to 0 over \<open>duration\<close> milliseconds.
\<close>

record HealthBar =
  hb_dying :: bool
  dyingTween :: "(real \<times> real) option"
  fillScaleX :: real
  fillX :: real
  fillAlpha :: real
  backgroundAlpha :: real
  alphaTweens :: "hbTween list"

subsection \<open>Scene and level\<close>

text \<open>
  The fields of \<open>Level\<close> and of \<open>GameScene\<close> that the simulation reads or writes, in one
  record. \<open>messageText\<close> holds the outcome message with its colour, \<open>sounds\<close> logs the
  \<open>sound.play\<close> calls, \<open>nextOid\<close> numbers the objects created by \<open>new\<close>. Texts of the HUD,
  sprites and the visual-effect tweens are presentation and are left out.
\<close>

record game =
  shapes :: "shape list"
  levelPassableScore :: real
  squaresSpared :: bool
  architectureSpared :: bool
  trianglesSpared :: bool
  showAreaHP :: bool
  intangibleActive :: bool
  intangible :: bool
  slowtimeActive :: bool
  slowtime :: bool
  messageText :: "(string \<times> string) option"
  score :: int
  slowtimeFactor :: real
  difficultyAdjustment :: real
  pointer :: "real \<times> real"
  timeEvents :: "timerEvent list"
  achievements :: "string set"
  sounds :: "string list"
  staticId :: nat
  nextOid :: nat
  healthBar :: HealthBar

text \<open>
  The containment tests of the Phaser library (\<open>Phaser.Geom.*.Contains\<close>), which is not part
  of the repository: the controller is parametrised by them.
\<close>

record phaserGeom =
  Triangle_Contains :: "geom \<Rightarrow> real \<Rightarrow> real \<Rightarrow> bool"
  Rectangle_Contains :: "geom \<Rightarrow> real \<Rightarrow> real \<Rightarrow> bool"
  Polygon_Contains :: "geom \<Rightarrow> real \<Rightarrow> real \<Rightarrow> bool"

text \<open>\<open>config.height\<close> of the game configuration.\<close>

definition gameHeight :: real where
  "gameHeight = 600"

section \<open>Kinematic entity (\<open>Shape\<close>)\<close>

text \<open>
  \<open>Shape.update(time, delta)\<close>: \<open>D\<close> is \<open>scene.difficultyAdjustment\<close>, \<open>T\<close> is
  \<open>scene.slowtimeFactor\<close>, \<open>delta\<close> is in milliseconds. The source computes in IEEE
  binary64. \<open>Shape_update\<close> evaluates the same expressions over the real numbers, without
  the rounding after each operation; it is the update the level controller below runs, which
  reads positions through comparisons with the screen bounds. \<open>Shape_update64\<close>, after it,
  is the update with the rounding, and the two are compared in the section on kinematics.
\<close>

definition Shape_update :: "real \<Rightarrow> real \<Rightarrow> real \<Rightarrow> shape \<Rightarrow> shape" where
  "Shape_update D T delta sh =
     (let deltaX = ((velocityX sh * D + secondVelocityX sh + circularVelocityX sh) * delta * T) / 1000;
          deltaY = ((velocityY sh * D + secondVelocityY sh + circularVelocityY sh) * delta * T) / 1000;
          deltaAngle = (angularVelocity sh * delta * T * D) / 1000
      in sh\<lparr>shape_x := shape_x sh + deltaX,
            shape_y := shape_y sh + deltaY,
            rotation := rotation sh + deltaAngle\<rparr>)"

subsection \<open>The update in binary64 arithmetic\<close>

text \<open>
  JavaScript numbers are IEEE 754 binary64 values, and a finite one is a real number.
  \<open>fl x\<close> is the finite double nearest to the real \<open>x\<close>, a tie going to the even
  significand: around \<open>x\<close> the doubles are \<open>ulp x\<close> apart, which is \<open>2\<close> to the power
  \<open>binade x - 52\<close>. The binade of \<open>x\<close> is the exponent \<open>e\<close> with \<open>2\<^sup>e \<le> \<bar>x\<bar> < 2\<^sup>e\<^sup>+\<^sup>1\<close>, searched from
  \<open>-1022\<close> (below it the spacing stays that of the subnormal numbers) up to \<open>1023\<close>. An
  arithmetic operation on finite doubles returns its exact result rounded, \<open>number\<close>; that
  is \<open>None\<close> when the result is not finite, that is when the rounded value lies beyond the
  largest finite double and the operation returns an infinity, and for a division by zero.
  An operand that is not finite makes the results of \<open>+\<close>, \<open>*\<close> and of the division by 1000
  not finite, so \<open>None\<close> propagates. The sign of a zero is not represented; no operation of
  the update observes it.
\<close>

definition roundTiesToEven :: "real \<Rightarrow> int" where
  "roundTiesToEven y =
     (if y - of_int \<lfloor>y\<rfloor> < 1 / 2 then \<lfloor>y\<rfloor>
      else if y - of_int \<lfloor>y\<rfloor> > 1 / 2 then \<lfloor>y\<rfloor> + 1
      else if even \<lfloor>y\<rfloor> then \<lfloor>y\<rfloor> else \<lfloor>y\<rfloor> + 1)"

primrec binadeFrom :: "nat \<Rightarrow> int \<Rightarrow> real \<Rightarrow> int" where
  "binadeFrom 0 e a = e"
| "binadeFrom (Suc n) e a = (if a < 2 powi (e + 1) then e else binadeFrom n (e + 1) a)"

definition binade :: "real \<Rightarrow> int" where
  "binade x = binadeFrom 2045 (- 1022) \<bar>x\<bar>"

definition ulp :: "real \<Rightarrow> real" where
  "ulp x = 2 powi (binade x - 52)"

definition fl :: "real \<Rightarrow> real" where
  "fl x = (if x = 0 then 0 else of_int (roundTiesToEven (x / ulp x)) * ulp x)"

definition maxDouble :: real where
  "maxDouble = (2 - 2 powi (- 52)) * 2 ^ 1023"

definition number :: "real \<Rightarrow> real option" where
  "number x = (if \<bar>fl x\<bar> \<le> maxDouble then Some (fl x) else None)"

definition js_add :: "real \<Rightarrow> real \<Rightarrow> real option" where
  "js_add a b = number (a + b)"

definition js_mul :: "real \<Rightarrow> real \<Rightarrow> real option" where
  "js_mul a b = number (a * b)"

definition js_div :: "real \<Rightarrow> real \<Rightarrow> real option" where
  "js_div a b = (if b = 0 then None else number (a / b))"

text \<open>
  \<open>Shape.update(time, delta)\<close> with every operation as JavaScript performs it, in the order
  the expressions of the source associate: \<open>displacement64\<close> is the expression of \<open>deltaX\<close>
  and of \<open>deltaY\<close>, \<open>angle64\<close> that of \<open>deltaAngle\<close>. The result is \<open>None\<close> when a value
  leaves the finite doubles.
\<close>

definition displacement64 :: "real \<Rightarrow> real \<Rightarrow> real \<Rightarrow> real \<Rightarrow> real \<Rightarrow> real \<Rightarrow> real option" where
  "displacement64 D T delta v s c =
     Option.bind (js_mul v D) (\<lambda>a1.
     Option.bind (js_add a1 s) (\<lambda>a2.
     Option.bind (js_add a2 c) (\<lambda>a3.
     Option.bind (js_mul a3 delta) (\<lambda>a4.
     Option.bind (js_mul a4 T) (\<lambda>a5.
     js_div a5 1000)))))"

definition angle64 :: "real \<Rightarrow> real \<Rightarrow> real \<Rightarrow> real \<Rightarrow> real option" where
  "angle64 D T delta av =
     Option.bind (js_mul av delta) (\<lambda>a1.
     Option.bind (js_mul a1 T) (\<lambda>a2.
     Option.bind (js_mul a2 D) (\<lambda>a3.
     js_div a3 1000)))"

definition Shape_update64 :: "real \<Rightarrow> real \<Rightarrow> real \<Rightarrow> shape \<Rightarrow> shape option" where
  "Shape_update64 D T delta sh =
     Option.bind (displacement64 D T delta (velocityX sh) (secondVelocityX sh) (circularVelocityX sh))
       (\<lambda>deltaX.
     Option.bind (displacement64 D T delta (velocityY sh) (secondVelocityY sh) (circularVelocityY sh))
       (\<lambda>deltaY.
     Option.bind (angle64 D T delta (angularVelocity sh)) (\<lambda>deltaAngle.
     Option.bind (js_add (shape_x sh) deltaX) (\<lambda>x.
     Option.bind (js_add (shape_y sh) deltaY) (\<lambda>y.
     Option.bind (js_add (rotation sh) deltaAngle) (\<lambda>r.
     Some (sh\<lparr>shape_x := x, shape_y := y, rotation := r\<rparr>)))))))"

subsection \<open>Death animation\<close>

text \<open>
  \<open>Shape.performDeathAnimation()\<close>: the result is the entity and the sounds played. The fade
  tween it starts completes 250 ms later in \<open>deathFadeComplete\<close>.
\<close>

definition performDeathAnimation :: "shape \<Rightarrow> shape \<times> string list" where
  "performDeathAnimation sh =
     (if dying sh then (sh, [])
      else (sh\<lparr>dying := True\<rparr>,
            if shape_y sh \<le> gameHeight + 50 then [''pop''] else []))"

section \<open>Resource bar (\<open>HealthBar\<close>)\<close>

definition refillAndPauseHealthBar :: "HealthBar \<Rightarrow> HealthBar" where
  "refillAndPauseHealthBar hb =
     hb\<lparr>hb_dying := False, dyingTween := None, fillScaleX := 1, fillX := 0\<rparr>"

text \<open>
  \<open>decreaseHealthBar()\<close> stops a running depletion tween and starts a new one from the
  fill's current scale to 0 over 4000 ms. Its \<open>onComplete\<close> is \<open>depletionComplete\<close> below.
\<close>

definition decreaseHealthBar :: "HealthBar \<Rightarrow> HealthBar" where
  "decreaseHealthBar hb = hb\<lparr>hb_dying := True, dyingTween := Some (fillScaleX hb, 4000)\<rparr>"


text \<open>
  \<open>hideHealthBar()\<close>: its guard \<open>!this.healthBarBackground.alpha === 0\<close> compares a boolean
  with a number and is never true, so the body always runs.
\<close>

definition hideHealthBar :: "HealthBar \<Rightarrow> HealthBar" where
  "hideHealthBar hb =
     refillAndPauseHealthBar
       (hb\<lparr>alphaTweens := alphaTweens hb @ [FadeOutBackground, FadeOutFill]\<rparr>)"

definition hideHealthBarInstant :: "HealthBar \<Rightarrow> HealthBar" where
  "hideHealthBarInstant hb =
     (refillAndPauseHealthBar hb)\<lparr>fillAlpha := 0, backgroundAlpha := 0\<rparr>"

definition showHealthBar :: "HealthBar \<Rightarrow> HealthBar" where
  "showHealthBar hb =
     (if backgroundAlpha hb = 1 then hb
      else (decreaseHealthBar hb)
             \<lparr>alphaTweens := alphaTweens hb @ [FadeInBackground, FadeInFill]\<rparr>)"

text \<open>The \<open>onComplete\<close> of an alpha tween of the bar.\<close>

definition alphaTweenComplete :: "hbTween \<Rightarrow> HealthBar \<Rightarrow> HealthBar" where
  "alphaTweenComplete tw hb =
     (if tw \<notin> set (alphaTweens hb) then hb
      else
        (let hb1 = hb\<lparr>alphaTweens := remove1 tw (alphaTweens hb)\<rparr>
         in case tw of
              FadeInBackground \<Rightarrow> hb1\<lparr>backgroundAlpha := 1\<rparr>
            | FadeInFill \<Rightarrow> hb1\<lparr>fillAlpha := 1\<rparr>
            | FadeOutBackground \<Rightarrow> hb1\<lparr>backgroundAlpha := 0\<rparr>
            | FadeOutFill \<Rightarrow> refillAndPauseHealthBar (hb1\<lparr>fillAlpha := 0\<rparr>)))"

section \<open>Level controller (\<open>Level\<close>)\<close>

text \<open>The object with identity \<open>r\<close> in the entity list, if it is there (\<open>indexOf(shape) > -1\<close>).\<close>

definition lookup :: "shape list \<Rightarrow> nat \<Rightarrow> shape option" where
  "lookup shs r = find (\<lambda>sh. oid sh = r) shs"

text \<open>\<open>Level.removeShape(shape)\<close>, that is \<open>shape.performDeathAnimation()\<close>.\<close>

definition removeShape :: "nat \<Rightarrow> game \<Rightarrow> game" where
  "removeShape r s =
     (case lookup (shapes s) r of
        None \<Rightarrow> s
      | Some sh \<Rightarrow>
          s\<lparr>shapes := map (\<lambda>x. if oid x = r then fst (performDeathAnimation x) else x) (shapes s),
            sounds := sounds s @ snd (performDeathAnimation sh)\<rparr>)"

text \<open>One iteration of the loop of \<open>clearShapesNoSound()\<close>, and the loop.\<close>

definition clearShape :: "shape \<Rightarrow> shape \<times> string list" where
  "clearShape sh =
     (let sh1 = sh\<lparr>shape_y := gameHeight + 100\<rparr>
      in if \<not> toBeRemoved sh1 then performDeathAnimation sh1 else (sh1, []))"

definition clearShapesNoSound :: "game \<Rightarrow> game" where
  "clearShapesNoSound s =
     s\<lparr>shapes := map (\<lambda>sh. fst (clearShape sh)) (shapes s),
       sounds := sounds s @ concat (map (\<lambda>sh. snd (clearShape sh)) (shapes s))\<rparr>"

text \<open>
  One iteration of the loop of the \<open>clear-friendlies\<close> branch; \<open>sf\<close> is the power-up's
  \<open>scaleFactor\<close>.
\<close>

definition clearFriendly :: "real \<Rightarrow> shape \<Rightarrow> shape \<times> string list" where
  "clearFriendly sf shapeNew =
     (if (instanceof (cls shapeNew) Architecture \<or> instanceof (cls shapeNew) Square)
          \<and> \<not> instanceof (cls shapeNew) Area
          \<and> shape_y shapeNew > - 300 * sf * sf
      then performDeathAnimation (shapeNew\<lparr>shape_y := gameHeight + 100\<rparr>)
      else (shapeNew, []))"

text \<open>\<open>Level.handleShapeInteraction(shape, shapeType)\<close>, \<open>r\<close> the identity of \<open>shape\<close>.\<close>

definition handleShapeInteraction :: "game \<Rightarrow> nat \<Rightarrow> string \<Rightarrow> game" where
  "handleShapeInteraction s r shapeType =
     (case lookup (shapes s) r of
        None \<Rightarrow> s
      | Some sh \<Rightarrow>
          if shapeType = ''area'' then s\<lparr>healthBar := refillAndPauseHealthBar (healthBar s)\<rparr>
          else if intangible s then s
          else
            (case (if shapeType = ''clear-friendlies'' then
                     Some (s\<lparr>shapes := map (\<lambda>x. fst (clearFriendly (scaleFactor sh) x)) (shapes s),
                             sounds := sounds s
                               @ concat (map (\<lambda>x. snd (clearFriendly (scaleFactor sh) x)) (shapes s))\<rparr>)
                   else if shapeType = ''intangible'' then Some (s\<lparr>intangibleActive := True\<rparr>)
                   else if shapeType = ''slowtime'' then Some (s\<lparr>slowtimeActive := True\<rparr>)
                   else if startsWith shapeType ''armored_'' then None
                   else Some s) of
               None \<Rightarrow> s
             | Some s1 \<Rightarrow>
                 (case lookup (shapes s1) r of
                    None \<Rightarrow> s1
                  | Some sh1 \<Rightarrow>
                      if dying sh1 then s1
                      else
                        (let s2 = removeShape r s1;
                             s3 = (if shapeType = ''triangle'' \<or> shapeType = ''stealth''
                                   then s2\<lparr>score := score s2 + 1\<rparr> else s2)
                         in if shapeType = ''architecture'' \<or> shapeType = ''square''
                            then s3\<lparr>score := score s3 - 1\<rparr> else s3))))"

text \<open>
  \<open>ArmoredTriangle.takeDamage()\<close> on the object with identity \<open>r\<close>, the handler of
  \<open>pointerdown\<close>. \<open>generateSprite(healthPoints)\<close> stores the value it is given back into
  \<open>healthPoints\<close>, so the branch for positive values leaves the field as decremented. An
  object that is no longer in the entity list has had its graphics destroyed and receives no
  event.
\<close>

definition takeDamage :: "game \<Rightarrow> nat \<Rightarrow> game" where
  "takeDamage s r =
     (case lookup (shapes s) r of
        None \<Rightarrow> s
      | Some sh \<Rightarrow>
          (let hp = map_option (\<lambda>h. h - 1) (healthPoints sh);
               s1 = s\<lparr>shapes := map (\<lambda>x. if oid x = r then x\<lparr>healthPoints := hp\<rparr> else x) (shapes s)\<rparr>
           in if hp = Some 0 then removeShape r (s1\<lparr>score := score s1 + 1\<rparr>) else s1))"

text \<open>The handlers that \<open>spawnShape\<close> and \<open>spawnArchitecture\<close> register on an entity's graphics.\<close>

definition pointerover :: "game \<Rightarrow> nat \<Rightarrow> game" where
  "pointerover s r =
     (case lookup (shapes s) r of
        None \<Rightarrow> s
      | Some sh \<Rightarrow> handleShapeInteraction s r (label sh))"

definition pointerdown :: "game \<Rightarrow> nat \<Rightarrow> game" where
  "pointerdown s r =
     (case lookup (shapes s) r of
        None \<Rightarrow> s
      | Some sh \<Rightarrow>
          if label sh \<noteq> ''area'' \<and> startsWith (label sh) ''armored_'' then takeDamage s r else s)"

definition pointerout :: "game \<Rightarrow> nat \<Rightarrow> game" where
  "pointerout s r =
     (case lookup (shapes s) r of
        None \<Rightarrow> s
      | Some sh \<Rightarrow>
          if label sh = ''area'' then s\<lparr>healthBar := decreaseHealthBar (healthBar s)\<rparr> else s)"

text \<open>
  The body of the loop of \<open>checkAllShapes()\<close> for the entity with identity \<open>r\<close>, and the loop.
  Every entity has a \<open>geom\<close> (set by \<open>createGraphics\<close>), so the test \<open>if (shapeGraphics.geom)\<close>
  always passes.
\<close>

definition checkShape :: "phaserGeom \<Rightarrow> nat \<Rightarrow> game \<Rightarrow> game" where
  "checkShape P r s =
     (case lookup (shapes s) r of
        None \<Rightarrow> s
      | Some sh \<Rightarrow>
          (let px = fst (pointer s) - shape_x sh;
               py = snd (pointer s) - shape_y sh;
               g = geom sh;
               c = cls sh;
               (containsPointer, shapeType) =
                 (if instanceof c Triangle then (Triangle_Contains P g px py, ''triangle'')
                  else if instanceof c Area then (Rectangle_Contains P g px py, ''area'')
                  else if instanceof c Square then (Triangle_Contains P g px py, ''square'')
                  else if instanceof c Architecture then (Polygon_Contains P g px py, ''architecture'')
                  else if instanceof c ClearFriendlies then (Polygon_Contains P g px py, ''clear-friendlies'')
                  else if instanceof c Intangible then (Polygon_Contains P g px py, ''intangible'')
                  else if instanceof c SlowTime then (Polygon_Contains P g px py, ''slowtime'')
                  else (False, []))
           in if containsPointer then handleShapeInteraction s r shapeType else s))"

definition checkAllShapes :: "phaserGeom \<Rightarrow> game \<Rightarrow> game" where
  "checkAllShapes P s = fold (checkShape P) (map oid (shapes s)) s"

text \<open>\<open>Level.checkLevelCleared()\<close>; \<open>unlockAchievement\<close> marks a known achievement as obtained.\<close>

definition unlockAchievement :: "string \<Rightarrow> game \<Rightarrow> game" where
  "unlockAchievement name s = s\<lparr>achievements := insert name (achievements s)\<rparr>"

definition checkLevelCleared :: "game \<Rightarrow> game" where
  "checkLevelCleared s =
     (if length (shapes s) = 0 then
        (let s1 = s\<lparr>showAreaHP := False, healthBar := hideHealthBarInstant (healthBar s)\<rparr>;
             cleared = (real_of_int (score s1) \<ge> levelPassableScore s1);
             message = (if cleared then ''Level Cleared!'' else ''Level Failed'');
             color = (if cleared then ''#00FF00'' else ''#FF0000'');
             s2 = (if \<not> squaresSpared s1 \<and> \<not> architectureSpared s1 then
                     (let s' = unlockAchievement ''Friendly-Fire'' s1
                      in if \<not> trianglesSpared s' then unlockAchievement ''Destructive'' s' else s')
                   else s1);
             s3 = s2\<lparr>sounds := sounds s2 @ [if \<not> cleared then ''lose'' else ''win'']\<rparr>
         in s3\<lparr>messageText := Some (message, color),
               timeEvents := timeEvents s3 @ [NextAction cleared]\<rparr>)
      else s)"

text \<open>
  The body of the loop of \<open>Level.update(time, delta)\<close> for one entity. The accumulator is the
  flag \<open>onlyArchitecture\<close> and the scene; the entity itself is returned updated. (The flag
  \<open>wontEnd\<close> of the source is never read.)
\<close>

definition updateShape :: "real \<Rightarrow> shape \<Rightarrow> bool \<times> game \<Rightarrow> shape \<times> bool \<times> game" where
  "updateShape delta sh0 acc =
     (let (onlyArchitecture, s) = acc;
          sh = Shape_update (difficultyAdjustment s) (slowtimeFactor s) delta sh0;
          c = cls sh;
          only1 = (if \<not> (instanceof c Architecture \<or> instanceof c Area) then False
                   else if instanceof c Architecture \<and> velocityY sh > 0 then False
                   else onlyArchitecture)
      in if dying sh then (sh, only1, s)
         else
           (let (sh1, s1) =
                  (if shape_y sh > gameHeight + 50 then
                     (let sa = s\<lparr>sounds := sounds s @ snd (performDeathAnimation sh)\<rparr>;
                          sb = (if instanceof c Square then sa\<lparr>squaresSpared := True\<rparr> else sa);
                          sc = (if instanceof c Architecture then sb\<lparr>architectureSpared := True\<rparr> else sb);
                          sd = (if instanceof c Triangle \<or> instanceof c StealthTriangle
                                   \<or> instanceof c ArmoredTriangle
                                then sc\<lparr>trianglesSpared := True\<rparr> else sc);
                          se = (if instanceof c Area
                                then sd\<lparr>healthBar := hideHealthBar (healthBar sd)\<rparr> else sd)
                      in (fst (performDeathAnimation sh), se))
                   else (sh, s));
                s2 = (if instanceof c Area \<and> shape_y sh1 > 0 \<and> \<not> showAreaHP s1
                      then s1\<lparr>healthBar := showHealthBar (healthBar s1), showAreaHP := True\<rparr>
                      else s1)
            in (sh1, only1, s2)))"

fun updateShapes :: "real \<Rightarrow> shape list \<Rightarrow> bool \<times> game \<Rightarrow> shape list \<times> bool \<times> game" where
  "updateShapes delta [] acc = ([], acc)"
| "updateShapes delta (sh # shs) acc =
     (let (sh1, acc1) = updateShape delta sh acc;
          (shs1, acc2) = updateShapes delta shs acc1
      in (sh1 # shs1, acc2))"

definition Level_update :: "real \<Rightarrow> game \<Rightarrow> game" where
  "Level_update delta s =
     (let (shs, onlyArchitecture, s1) = updateShapes delta (shapes s) (True, s);
          s2 = s1\<lparr>shapes := shs\<rparr>;
          s3 = (if onlyArchitecture then clearShapesNoSound (s2\<lparr>architectureSpared := True\<rparr>) else s2);
          originalLength = length (shapes s3);
          s4 = s3\<lparr>shapes := filter (\<lambda>sh. \<not> toBeRemoved sh) (shapes s3)\<rparr>
      in if length (shapes s4) < originalLength then checkLevelCleared s4 else s4)"

text \<open>
  The \<open>onComplete\<close> callbacks of the tweens: the end of the 250 ms fade that
  \<open>performDeathAnimation\<close> starts, and the end of the depletion of the resource bar.
\<close>

definition deathFadeComplete :: "nat \<Rightarrow> game \<Rightarrow> game" where
  "deathFadeComplete r s =
     s\<lparr>shapes := map (\<lambda>x. if oid x = r \<and> dying x then x\<lparr>toBeRemoved := True\<rparr> else x) (shapes s)\<rparr>"



section \<open>Session controller (\<open>GameScene\<close>): power-ups\<close>

text \<open>\<open>GameScene.finishIntangible()\<close> and \<open>GameScene.finishSlowtime()\<close>.\<close>

definition finishIntangible :: "phaserGeom \<Rightarrow> game \<Rightarrow> game" where
  "finishIntangible P s = checkAllShapes P (s\<lparr>intangible := False\<rparr>)"

definition finishSlowtime :: "game \<Rightarrow> game" where
  "finishSlowtime s = s\<lparr>slowtime := False, slowtimeFactor := 1\<rparr>"

text \<open>The handlers of the keys E and S, and the two delayed calls they schedule.\<close>

definition keydown_E :: "phaserGeom \<Rightarrow> game \<Rightarrow> game" where
  "keydown_E P s =
     (if \<not> intangibleActive s \<and> \<not> intangible s then s
      else if intangible s then
        finishIntangible P (s\<lparr>timeEvents := filter (\<lambda>e. e \<noteq> IntangibleTimeout) (timeEvents s)\<rparr>)
      else s\<lparr>intangibleActive := False, intangible := True,
             timeEvents := timeEvents s @ [IntangibleTimeout]\<rparr>)"

definition intangibleTimeout :: "phaserGeom \<Rightarrow> game \<Rightarrow> game" where
  "intangibleTimeout P s =
     (if IntangibleTimeout \<in> set (timeEvents s)
      then finishIntangible P (s\<lparr>timeEvents := remove1 IntangibleTimeout (timeEvents s)\<rparr>)
      else s)"

definition is_SlowtimeTimeout :: "timerEvent \<Rightarrow> bool" where
  "is_SlowtimeTimeout e = (case e of SlowtimeTimeout _ \<Rightarrow> True | _ \<Rightarrow> False)"

definition keydown_S :: "game \<Rightarrow> game" where
  "keydown_S s =
     (if \<not> slowtimeActive s \<and> \<not> slowtime s then s
      else if slowtime s then
        finishSlowtime (s\<lparr>timeEvents := filter (\<lambda>e. \<not> is_SlowtimeTimeout e) (timeEvents s)\<rparr>)
      else
        (let s1 = s\<lparr>slowtimeFactor := 1 / 10\<rparr>
         in s1\<lparr>slowtime := True, slowtimeActive := False,
               timeEvents := timeEvents s1 @ [SlowtimeTimeout (3000 * slowtimeFactor s1)]\<rparr>))"

definition slowtimeTimeout :: "game \<Rightarrow> game" where
  "slowtimeTimeout s =
     (if \<exists>e \<in> set (timeEvents s). is_SlowtimeTimeout e
      then finishSlowtime (s\<lparr>timeEvents := filter (\<lambda>e. \<not> is_SlowtimeTimeout e) (timeEvents s)\<rparr>)
      else s)"

section \<open>Entity catalog: construction\<close>

text \<open>The constructor of \<open>Shape\<close>; \<open>g\<close> is the hit region \<open>createGraphics\<close> attaches.\<close>

definition Shape_new ::
  "shapeClass \<Rightarrow> nat \<Rightarrow> string \<Rightarrow> nat \<Rightarrow> real \<Rightarrow> real \<Rightarrow> real \<Rightarrow> real \<Rightarrow> real \<Rightarrow> geom \<Rightarrow> shape" where
  "Shape_new c r lbl idn px py vx vy av g =
     \<lparr>cls = c, oid = r, label = lbl, shape_id = idn, shape_x = px, shape_y = py,
      velocityX = vx, velocityY = vy, angularVelocity = av,
      secondVelocityX = 0, secondVelocityY = 0, circularVelocityX = 0, circularVelocityY = 0,
      scaleFactor = 1, rotation = 0, toBeRemoved = False, dying = False,
      healthPoints = None, geom = g\<rparr>"

definition DegToRad :: "real \<Rightarrow> real" where
  "DegToRad d = d * pi / 180"

text \<open>The hit regions of \<open>Triangle\<close>, \<open>Square\<close> and \<open>Upgrade\<close> (\<open>createGraphics\<close>).\<close>

definition createGraphics :: "shapeClass \<Rightarrow> geom" where
  "createGraphics c =
     (if instanceof c Triangle then GeomTriangle (- 25) (25 - 8) 25 (25 - 8) 0 (- 25 - 8)
      else if instanceof c Square then GeomRectangle (- (50 / 2)) (- (50 / 2)) 50 50
      else GeomPolygon
             (map (\<lambda>i. (30 * cos (DegToRad (72 * real i - 90)), 30 * sin (DegToRad (72 * real i - 90))))
                [0..<5]))"

text \<open>
  The dispatch on \<open>shapeType\<close> at the head of \<open>spawnShape\<close>: the class instantiated, or
  \<open>None\<close> where the last branch throws.
\<close>

definition classOfLabel :: "string \<Rightarrow> shapeClass option" where
  "classOfLabel shapeType =
     (if shapeType = ''triangle'' then Some Triangle
      else if shapeType = ''square'' then Some Square
      else if shapeType = ''area'' then Some Area
      else if shapeType = ''clear-friendlies'' then Some ClearFriendlies
      else if shapeType = ''intangible'' then Some Intangible
      else if shapeType = ''slowtime'' then Some SlowTime
      else if startsWith shapeType ''armored_'' then Some ArmoredTriangle
      else if startsWith shapeType ''stealth'' then Some StealthTriangle
      else None)"

text \<open>\<open>parseInt(c, 10)\<close> of a single character: \<open>None\<close> is \<open>NaN\<close>.\<close>

definition parseInt :: "char \<Rightarrow> int option" where
  "parseInt c =
     map_of [(CHR ''0'', 0), (CHR ''1'', 1), (CHR ''2'', 2), (CHR ''3'', 3), (CHR ''4'', 4),
             (CHR ''5'', 5), (CHR ''6'', 6), (CHR ''7'', 7), (CHR ''8'', 8), (CHR ''9'', 9)] c"

section \<open>Level script interpreter\<close>

text \<open>
  \<open>.length\<close> of a script value (\<open>None\<close>: \<open>undefined\<close>) and the elements an array
  destructuring reads from it (\<open>None\<close>: not iterable, a \<open>TypeError\<close>).
\<close>

fun js_length :: "jsval \<Rightarrow> nat option" where
  "js_length (JArr xs) = Some (length xs)"
| "js_length (JStr t) = Some (length t)"
| "js_length _ = None"

fun elems :: "jsval \<Rightarrow> jsval list option" where
  "elems (JArr xs) = Some xs"
| "elems (JStr t) = Some (map (\<lambda>c. JStr [c]) t)"
| "elems _ = None"

text \<open>
  One entry \<open>[delay, params]\<close> of an animation list, as \<open>animateScale\<close>, \<open>animateVelocities\<close>
  and \<open>animateMovement\<close> read it: \<open>k\<close> is the number of parameters the function insists on.
  A missing \<open>params\<close> is \<open>undefined\<close>, whose \<open>.length\<close> is a \<open>TypeError\<close>.
\<close>

definition animationEntry :: "nat \<Rightarrow> jsval \<Rightarrow> error + (real \<times> real list)" where
  "animationEntry k e =
     (case elems e of
        None \<Rightarrow> Inl TypeError
      | Some [] \<Rightarrow> Inl TypeError
      | Some [d] \<Rightarrow> Inl TypeError
      | Some (d # params # _) \<Rightarrow>
          if js_length params \<noteq> Some k then Inl NotImplemented
          else (case elems params of
                  None \<Rightarrow> Inl NotImplemented
                | Some ps \<Rightarrow> Inr (num_of d, map num_of ps)))"

fun animationEntries :: "nat \<Rightarrow> jsval list \<Rightarrow> error + (real \<times> real list) list" where
  "animationEntries k [] = Inr []"
| "animationEntries k (e # es) =
     (case animationEntry k e of
        Inl err \<Rightarrow> Inl err
      | Inr x \<Rightarrow> (case animationEntries k es of Inl err \<Rightarrow> Inl err | Inr xs \<Rightarrow> Inr (x # xs)))"

text \<open>
  The delayed calls scheduled by the four animation functions of \<open>Shape\<close> for the entity
  with identity \<open>r\<close>; \<open>D\<close> is the difficulty multiplier. \<open>animateScale\<close> has no test for the
  empty list, the others return on \<open>length === 0\<close> before they call \<open>forEach\<close>.
\<close>

definition animateVelocities :: "real \<Rightarrow> nat \<Rightarrow> jsval \<Rightarrow> error + timerEvent list" where
  "animateVelocities D r velocityArray =
     (if js_length velocityArray = Some 0 then Inr []
      else case velocityArray of
             JArr es \<Rightarrow>
               (case animationEntries 3 es of
                  Inl err \<Rightarrow> Inl err
                | Inr xs \<Rightarrow> Inr (map (\<lambda>(d, ps). VelocityStart r (d / D) ps) xs))
           | _ \<Rightarrow> Inl TypeError)"

definition animateScale :: "real \<Rightarrow> nat \<Rightarrow> jsval \<Rightarrow> error + timerEvent list" where
  "animateScale D r growingParamsArray =
     (case growingParamsArray of
        JArr es \<Rightarrow>
          (case animationEntries 2 es of
             Inl err \<Rightarrow> Inl err
           | Inr xs \<Rightarrow> Inr (map (\<lambda>(d, ps). ScaleStart r (d / D) ps) xs))
      | _ \<Rightarrow> Inl TypeError)"

definition animateMovement :: "real \<Rightarrow> nat \<Rightarrow> jsval \<Rightarrow> error + timerEvent list" where
  "animateMovement D r movementParamsArray =
     (if js_length movementParamsArray = Some 0 then Inr []
      else case movementParamsArray of
             JArr es \<Rightarrow>
               (case animationEntries 4 es of
                  Inl err \<Rightarrow> Inl err
                | Inr xs \<Rightarrow> Inr (map (\<lambda>(d, ps). MovementStart r (d / D) ps) xs))
           | _ \<Rightarrow> Inl TypeError)"

definition animateCircularMovement :: "real \<Rightarrow> nat \<Rightarrow> jsval \<Rightarrow> error + timerEvent list" where
  "animateCircularMovement D r movementParams =
     (if js_length movementParams = Some 0 then Inr []
      else if js_length movementParams \<noteq> Some 5 then Inl NotImplemented
      else case elems movementParams of
             Some (d # ps) \<Rightarrow> Inr [CircularStart r (num_of d / D) (map num_of ps)]
           | _ \<Rightarrow> Inl NotImplemented)"

text \<open>\<open>Level.spawnShape\<close>. The flags are written before the animation functions can throw.\<close>

definition spawnShape ::
  "game \<Rightarrow> jsval \<Rightarrow> real \<Rightarrow> real \<Rightarrow> real \<Rightarrow> real \<Rightarrow> real \<Rightarrow> jsval \<Rightarrow> jsval \<Rightarrow> jsval \<Rightarrow> jsval
     \<Rightarrow> error + game" where
  "spawnShape s shapeTypeV px py vx vy av velocityData scaleData movementData movementCircularData =
     (case shapeTypeV of
        JStr shapeType \<Rightarrow>
          (case classOfLabel shapeType of
             None \<Rightarrow> Inl NotImplemented
           | Some c \<Rightarrow>
               (let s1 = (if c = Triangle \<or> c = ArmoredTriangle \<or> c = StealthTriangle
                          then s\<lparr>trianglesSpared := False\<rparr>
                          else if c = Square then s\<lparr>squaresSpared := False\<rparr>
                          else s);
                    r = nextOid s1;
                    D = difficultyAdjustment s1;
                    sh = Shape_new c r shapeType (staticId s1) px py vx vy av (createGraphics c);
                    sh1 = (if c = ArmoredTriangle
                           then sh\<lparr>healthPoints := parseInt (last shapeType)\<rparr> else sh)
                in bind (animateVelocities D r velocityData) (\<lambda>ev1.
                   bind (animateScale D r scaleData) (\<lambda>ev2.
                   bind (animateMovement D r movementData) (\<lambda>ev3.
                   bind (animateCircularMovement D r movementCircularData) (\<lambda>ev4.
                     Inr (s1\<lparr>shapes := shapes s1 @ [sh1],
                             timeEvents := timeEvents s1 @ ev1 @ ev2 @ ev3 @ ev4,
                             staticId := staticId s1 + 1,
                             nextOid := nextOid s1 + 1\<rparr>)))))))
      | _ \<Rightarrow> Inl TypeError)"

text \<open>
  \<open>Level.spawnArchitecture\<close> with the constructor of \<open>Architecture\<close>. A polygon of the
  script has at least one point, and the statements below are about such polygons: for an
  empty list \<open>Math.min\<close> of no argument is \<open>Infinity\<close>, where \<open>minY\<close> gives 0.
\<close>

definition minY :: "(real \<times> real) list \<Rightarrow> real" where
  "minY pts = (case pts of [] \<Rightarrow> 0 | p # ps \<Rightarrow> fold (\<lambda>q m. min m (snd q)) ps (snd p))"

definition spawnArchitecture :: "game \<Rightarrow> jsval \<Rightarrow> real \<Rightarrow> error + game" where
  "spawnArchitecture s points vy =
     (case points of
        JArr ps \<Rightarrow>
          (let s1 = s\<lparr>architectureSpared := False\<rparr>;
               pts = map point_of ps;
               m = minY pts;
               g = GeomPolygon (map (\<lambda>p. (fst p, snd p - m)) pts);
               sh = Shape_new Architecture (nextOid s1) ''architecture'' (staticId s1) 0 m 0 vy 0 g
           in Inr (s1\<lparr>shapes := shapes s1 @ [sh],
                      staticId := staticId s1 + 1,
                      nextOid := nextOid s1 + 1\<rparr>))
      | _ \<Rightarrow> Inl TypeError)"

text \<open>
  \<open>GameScene.animateBlackout\<close>: one delayed call per entry \<open>[delay, duration, repeat]\<close>. An
  entry with fewer than three elements leaves the missing ones \<open>undefined\<close> in the code;
  \<open>nth_num\<close> gives 0 for them.
\<close>

definition nth_num :: "jsval list \<Rightarrow> nat \<Rightarrow> real" where
  "nth_num xs i = (if i < length xs then num_of (xs ! i) else 0)"

fun blackoutEntries :: "jsval list \<Rightarrow> error + timerEvent list" where
  "blackoutEntries [] = Inr []"
| "blackoutEntries (e # es) =
     (case elems e of
        None \<Rightarrow> Inl TypeError
      | Some xs \<Rightarrow>
          (case blackoutEntries es of
             Inl err \<Rightarrow> Inl err
           | Inr evs \<Rightarrow> Inr (BlackoutStart (nth_num xs 0) (nth_num xs 1) (nth_num xs 2) # evs)))"

definition animateBlackout :: "game \<Rightarrow> jsval \<Rightarrow> error + game" where
  "animateBlackout s fadeArray =
     (if js_length fadeArray = Some 0 then Inr s
      else case fadeArray of
             JArr es \<Rightarrow>
               (case blackoutEntries es of
                  Inl err \<Rightarrow> Inl err
                | Inr evs \<Rightarrow> Inr (s\<lparr>timeEvents := timeEvents s @ evs\<rparr>))
           | _ \<Rightarrow> Inl TypeError)"

text \<open>\<open>Level.processLevelData(data)\<close>: the dispatch on the length of the line.\<close>

definition processLevelData :: "game \<Rightarrow> jsval list \<Rightarrow> error + game" where
  "processLevelData s data =
     (if length data = 1 then Inr (s\<lparr>levelPassableScore := num_of (data ! 0)\<rparr>)
      else if length data = 2 then
        (if data ! 0 = JStr ''black'' then animateBlackout s (data ! 1) else Inr s)
      else if length data = 3 then spawnArchitecture s (data ! 1) (num_of (data ! 2))
      else if length data = 10 then
        spawnShape s (data ! 0) (num_of (data ! 1)) (num_of (data ! 2)) (num_of (data ! 3))
          (num_of (data ! 4)) (num_of (data ! 5)) (data ! 6) (data ! 7) (data ! 8) (data ! 9)
      else Inl NotImplemented)"

text \<open>The loop of \<open>loadLevel\<close>: a \<open>throw\<close> leaves it, and the lines after it are not read.\<close>

fun processAll :: "game \<Rightarrow> jsval list list \<Rightarrow> error + game" where
  "processAll s [] = Inr s"
| "processAll s (data # rest) =
     (case processLevelData s data of
        Inl err \<Rightarrow> Inl err
      | Inr s1 \<Rightarrow> processAll s1 rest)"





text \<open>
  The scene as \<open>create()\<close> leaves it (constructors of \<open>GameScene\<close>, \<open>Level\<close> and
  \<open>HealthBar\<close>), with the difficulty multiplier \<open>D\<close> that \<open>setDifficulty\<close> has selected.
\<close>

definition newGame :: "real \<Rightarrow> game" where
  "newGame D =
     \<lparr>shapes = [], levelPassableScore = 0, squaresSpared = True, architectureSpared = True,
      trianglesSpared = True, showAreaHP = False, intangibleActive = False, intangible = False,
      slowtimeActive = False, slowtime = False, messageText = None, score = 0,
      slowtimeFactor = 1, difficultyAdjustment = D, pointer = (0, 0), timeEvents = [],
      achievements = {}, sounds = [], staticId = 0, nextOid = 0,
      healthBar = \<lparr>hb_dying = True, dyingTween = None, fillScaleX = 1, fillX = 0,
                   fillAlpha = 0, backgroundAlpha = 0, alphaTweens = []\<rparr>\<rparr>"

section \<open>Containment tests of the Phaser library\<close>

text \<open>
  \<open>Phaser.Geom.Triangle.Contains\<close>, \<open>Phaser.Geom.Rectangle.Contains\<close> and
  \<open>Phaser.Geom.Polygon.Contains\<close> as the library defines them, for the concrete scenarios
  below. A region of the wrong kind has none of the fields the test reads; the arithmetic
  then runs on \<open>undefined\<close> and the test is false.
\<close>

definition phaser_Triangle_Contains :: "geom \<Rightarrow> real \<Rightarrow> real \<Rightarrow> bool" where
  "phaser_Triangle_Contains g px py =
     (case g of
        GeomTriangle x1 y1 x2 y2 x3 y3 \<Rightarrow>
          (let v0x = x3 - x1; v0y = y3 - y1;
               v1x = x2 - x1; v1y = y2 - y1;
               v2x = px - x1; v2y = py - y1;
               dot00 = v0x * v0x + v0y * v0y;
               dot01 = v0x * v1x + v0y * v1y;
               dot02 = v0x * v2x + v0y * v2y;
               dot11 = v1x * v1x + v1y * v1y;
               dot12 = v1x * v2x + v1y * v2y;
               b = dot00 * dot11 - dot01 * dot01;
               inv = (if b = 0 then 0 else 1 / b);
               u = (dot11 * dot02 - dot01 * dot12) * inv;
               v = (dot00 * dot12 - dot01 * dot02) * inv
           in u \<ge> 0 \<and> v \<ge> 0 \<and> u + v < 1)
      | _ \<Rightarrow> False)"

definition phaser_Rectangle_Contains :: "geom \<Rightarrow> real \<Rightarrow> real \<Rightarrow> bool" where
  "phaser_Rectangle_Contains g px py =
     (case g of
        GeomRectangle rx ry w h \<Rightarrow>
          (if w \<le> 0 \<or> h \<le> 0 then False
           else rx \<le> px \<and> rx + w \<ge> px \<and> ry \<le> py \<and> ry + h \<ge> py)
      | _ \<Rightarrow> False)"

primrec polygonCrossings :: "(real \<times> real) list \<Rightarrow> (real \<times> real) \<Rightarrow> real \<Rightarrow> real \<Rightarrow> bool \<Rightarrow> bool" where
  "polygonCrossings [] j px py inside = inside"
| "polygonCrossings (i # rest) j px py inside =
     polygonCrossings rest i px py
       (if ((snd i \<le> py \<and> py < snd j) \<or> (snd j \<le> py \<and> py < snd i))
            \<and> px < (fst j - fst i) * (py - snd i) / (snd j - snd i) + fst i
        then \<not> inside else inside)"

definition phaser_Polygon_Contains :: "geom \<Rightarrow> real \<Rightarrow> real \<Rightarrow> bool" where
  "phaser_Polygon_Contains g px py =
     (case g of
        GeomPolygon pts \<Rightarrow> (case pts of [] \<Rightarrow> False | _ \<Rightarrow> polygonCrossings pts (last pts) px py False)
      | _ \<Rightarrow> False)"

definition phaser :: phaserGeom where
  "phaser = \<lparr>Triangle_Contains = phaser_Triangle_Contains,
             Rectangle_Contains = phaser_Rectangle_Contains,
             Polygon_Contains = phaser_Polygon_Contains\<rparr>"

section \<open>Tween callbacks and notions of the statements\<close>

text \<open>
  The 250 ms fades of all entities of the list have run to their end: the \<open>onComplete\<close> of
  each has been called.
\<close>

definition fadesComplete :: "game \<Rightarrow> game" where
  "fadesComplete s = fold deathFadeComplete (map oid (shapes s)) s"

text \<open>The outcome that \<open>checkLevelCleared\<close> reports through the message text.\<close>

datatype outcome = Cleared | Failed

definition reportedOutcome :: "game \<Rightarrow> outcome option" where
  "reportedOutcome s =
     (case messageText s of
        None \<Rightarrow> None
      | Some (message, color) \<Rightarrow>
          if message = ''Level Cleared!'' then Some Cleared
          else if message = ''Level Failed'' then Some Failed
          else None)"






section \<open>Concrete scenarios\<close>

text \<open>
  A level whose script is one static obstacle with vertical velocity 0, loaded at the
  difficulty multiplier 1.
\<close>

definition ex_static :: game where
  "ex_static =
     (case processLevelData (newGame 1)
             [JStr ''wall'', JArr [JPoint 0 100, JPoint 50 100, JPoint 50 150], JNum 0] of
        Inr s \<Rightarrow> s
      | Inl err \<Rightarrow> newGame 1)"

text \<open>
  A level of an Intangibility power-up at (300, 300) and an Armored Target with one hit at
  (100, 100), both at rest; and a level of a single Slow-Time power-up.
\<close>

definition ex_intangible_level :: game where
  "ex_intangible_level =
     (case processAll (newGame 1)
             [[JStr ''intangible'', JNum 300, JNum 300, JNum 0, JNum 0, JNum 0,
               JArr [], JArr [], JArr [], JArr []],
              [JStr ''armored_1'', JNum 100, JNum 100, JNum 0, JNum 0, JNum 0,
               JArr [], JArr [], JArr [], JArr []]] of
        Inr s \<Rightarrow> s
      | Inl err \<Rightarrow> newGame 1)"

definition ex_slowtime_level :: game where
  "ex_slowtime_level =
     (case processLevelData (newGame 1)
             [JStr ''slowtime'', JNum 300, JNum 300, JNum 0, JNum 0, JNum 0,
              JArr [], JArr [], JArr [], JArr []] of
        Inr s \<Rightarrow> s
      | Inl err \<Rightarrow> newGame 1)"

text \<open>
  The same level after the player has collected the power-up (hover), the power-up's fade
  has ended and a tick has purged it, the player has pressed E to become intangible and has
  then moved the pointer onto the Armored Target.
\<close>

definition ex_hover_armored :: game where
  "ex_hover_armored =
     (keydown_E phaser (Level_update 16 (fadesComplete (pointerover ex_intangible_level 0))))
       \<lparr>pointer := (100, 100)\<rparr>"

text \<open>A level of one Armored Target with three hits, at rest at (100, 100).\<close>

definition ex_armored_level :: game where
  "ex_armored_level =
     (case processLevelData (newGame 1)
             [JStr ''armored_3'', JNum 100, JNum 100, JNum 0, JNum 0, JNum 0,
              JArr [], JArr [], JArr [], JArr []] of
        Inr s \<Rightarrow> s
      | Inl err \<Rightarrow> newGame 1)"






text \<open>A basic target at (100, 50) with velocity (30, 0), at rest otherwise.\<close>

definition ex_triangle :: shape where
  "ex_triangle = Shape_new Triangle 0 ''triangle'' 0 100 50 30 0 0 (createGraphics Triangle)"

section \<open>Verified properties\<close>

subsection \<open>Kinematics\<close>

text \<open>The rounding error of one operation: half a unit in the last place.\<close>

lemma roundTiesToEven_error: "\<bar>of_int (roundTiesToEven y) - y\<bar> \<le> 1 / 2"
  unfolding roundTiesToEven_def by (auto simp: abs_real_def) linarith+

lemma ulp_pos: "0 < ulp x"
  by (simp add: ulp_def)

lemma fl_error_ulp: "\<bar>fl x - x\<bar> \<le> ulp x / 2"
proof (cases "x = 0")
  case True
  then show ?thesis using ulp_pos [of x] by (simp add: fl_def)
next
  case False
  have "fl x - x = (of_int (roundTiesToEven (x / ulp x)) - x / ulp x) * ulp x"
    using ulp_pos [of x] False by (simp add: fl_def field_simps)
  then have "\<bar>fl x - x\<bar> = \<bar>of_int (roundTiesToEven (x / ulp x)) - x / ulp x\<bar> * ulp x"
    using ulp_pos [of x] by (simp add: abs_mult)
  also have "\<dots> \<le> 1 / 2 * ulp x"
    using roundTiesToEven_error [of "x / ulp x"] ulp_pos [of x] by (intro mult_right_mono) simp_all
  finally show ?thesis by simp
qed

lemma binadeFrom_lower:
  "2 powi e \<le> a \<Longrightarrow> 2 powi (binadeFrom n e a) \<le> a"
  by (induction n arbitrary: e) simp_all

lemma binadeFrom_eq:
  assumes "2 powi e \<le> a" and "a < 2 powi (e + 1)"
  shows "k \<le> e \<Longrightarrow> nat (e - k) \<le> n \<Longrightarrow> binadeFrom n k a = e"
proof (induction n arbitrary: k)
  case 0
  then show ?case by simp
next
  case (Suc n)
  show ?case
  proof (cases "k = e")
    case True
    then show ?thesis using assms(2) by simp
  next
    case False
    with Suc.prems have lt: "k + 1 \<le> e" by simp
    have "(2::real) powi (k + 1) \<le> 2 powi e"
      using lt by (intro power_int_increasing) simp_all
    then have "\<not> a < 2 powi (k + 1)" using assms(1) by simp
    moreover have "binadeFrom n (k + 1) a = e"
      using Suc.prems lt by (intro Suc.IH) simp_all
    ultimately show ?thesis by simp
  qed
qed

lemma binade_eq:
  assumes "2 powi e \<le> \<bar>x\<bar>" and "\<bar>x\<bar> < 2 powi (e + 1)" and "- 1022 \<le> e" and "e \<le> 1023"
  shows "binade x = e"
  unfolding binade_def using assms(3,4) by (intro binadeFrom_eq [OF assms(1,2)]) simp_all

lemma binade_subnormal:
  assumes "\<bar>x\<bar> < 2 powi k" and "k = - 1022"
  shows "binade x = - 1022"
proof -
  have "(2::real) powi k \<le> 2 powi (- 1022 + 1)"
    unfolding assms(2) by (intro power_int_increasing) simp_all
  then have lt: "\<bar>x\<bar> < 2 powi (- 1022 + 1)" using assms(1) by linarith
  have s: "(2045::nat) = Suc 2044" by simp
  show ?thesis unfolding binade_def s binadeFrom.simps using lt by (simp only: if_True)
qed

lemma ulp_le:
  assumes "2 powi k \<le> \<bar>x\<bar>" and "k = - 1022"
  shows "ulp x \<le> \<bar>x\<bar> * 2 powi (- 52)"
proof -
  have "2 powi (binade x) \<le> \<bar>x\<bar>"
    unfolding binade_def using assms by (intro binadeFrom_lower) simp
  moreover have "ulp x = 2 powi (binade x) * 2 powi (- 52)"
    by (simp add: ulp_def power_int_diff field_simps)
  ultimately show ?thesis by (simp add: mult_right_mono)
qed

lemma fl_error:
  "\<bar>fl x - x\<bar> \<le> \<bar>x\<bar> * 2 powi (- 53) + 2 powi (- 1075)"
proof (cases "2 powi (- 1022) \<le> \<bar>x\<bar>")
  case True
  have "ulp x / 2 \<le> \<bar>x\<bar> * 2 powi (- 52) / 2"
    using ulp_le [OF True refl] by simp
  also have "\<dots> = \<bar>x\<bar> * 2 powi (- 53)" by (simp add: power_int_minus)
  finally have "ulp x / 2 \<le> \<bar>x\<bar> * 2 powi (- 53)" .
  moreover have "(0::real) \<le> 2 powi (- 1075)" by simp
  ultimately show ?thesis using fl_error_ulp [of x] by linarith
next
  case False
  show ?thesis
  proof (cases "x = 0")
    case True
    then show ?thesis by (simp add: fl_def)
  next
    case x: False
    from False have "\<bar>x\<bar> < 2 powi (- 1022)" by simp
    from binade_subnormal [OF this refl] have "ulp x = 2 powi (- 1074)" by (simp add: ulp_def)
    then have "ulp x / 2 = 2 powi (- 1075)" by (simp add: power_int_minus)
    moreover have "0 \<le> \<bar>x\<bar> * 2 powi (- 53)" by simp
    ultimately show ?thesis using fl_error_ulp [of x] by linarith
  qed
qed


lemma number_approx:
  assumes "\<bar>a - a0\<bar> \<le> e" and "\<bar>a0\<bar> \<le> A" and "A + e \<le> 2 ^ 100"
    and "e + (A + e) * 2 powi (- 53) + 2 powi (- 1075) \<le> e'"
  shows "\<exists>r. number a = Some r \<and> \<bar>r - a0\<bar> \<le> e'"
proof -
  have a: "\<bar>a\<bar> \<le> A + e" using assms(1,2) by linarith
  have e: "0 \<le> e" using assms(1) by linarith
  have f: "\<bar>fl a - a\<bar> \<le> (A + e) * 2 powi (- 53) + 2 powi (- 1075)"
  proof -
    have "\<bar>a\<bar> * 2 powi (- 53) \<le> (A + e) * 2 powi (- 53)"
      using a by (intro mult_right_mono) simp_all
    then show ?thesis using fl_error [of a] by linarith
  qed
  have "(A + e) * 2 powi (- 53) \<le> 2 ^ 100 * 2 powi (- 53)"
    using assms(3) by (intro mult_right_mono) simp_all
  then have "\<bar>fl a\<bar> \<le> 2 ^ 100 + 2 ^ 100 * 2 powi (- 53) + 2 powi (- 1075)"
    using f a assms(3) by linarith
  also have "\<dots> \<le> maxDouble" by (simp add: maxDouble_def)
  finally have "number a = Some (fl a)" by (simp add: number_def)
  moreover have "\<bar>fl a - a0\<bar> \<le> e'" using f assms(1,4) by linarith
  ultimately show ?thesis by blast
qed


lemma abs_mult_le: "\<bar>a\<bar> \<le> A \<Longrightarrow> \<bar>b\<bar> \<le> B \<Longrightarrow> \<bar>a * b\<bar> \<le> A * (B::real)"
  unfolding abs_mult by (intro mult_mono) simp_all

lemma displacement64_approx:
  assumes "\<bar>v\<bar> \<le> 2 ^ 16" and "\<bar>s\<bar> \<le> 2 ^ 16" and "\<bar>c\<bar> \<le> 2 ^ 16"
    and "\<bar>D\<bar> \<le> 2 ^ 4" and "\<bar>T\<bar> \<le> 2 ^ 4" and "\<bar>delta\<bar> \<le> 2 ^ 10"
  shows "\<exists>d. displacement64 D T delta v s c = Some d
           \<and> \<bar>d - ((v * D + s + c) * T) * (delta / 1000)\<bar> \<le> 1 / 2 ^ 21
           \<and> \<bar>((v * D + s + c) * T) * (delta / 1000)\<bar> \<le> 2 ^ 27"
proof -
  let ?i1 = "v * D"
  let ?i2 = "?i1 + s"
  let ?i3 = "?i2 + c"
  let ?i4 = "?i3 * delta"
  let ?i5 = "?i4 * T"
  let ?i6 = "?i5 / 1000"
  have b1: "\<bar>?i1\<bar> \<le> 2 ^ 20" using abs_mult_le [OF assms(1,4)] by simp
  have b2: "\<bar>?i2\<bar> \<le> 2 ^ 21" using b1 assms(2) by simp
  have b3: "\<bar>?i3\<bar> \<le> 2 ^ 22" using b2 assms(3) by simp
  have b4: "\<bar>?i4\<bar> \<le> 2 ^ 32" using abs_mult_le [OF b3 assms(6)] by simp
  have b5: "\<bar>?i5\<bar> \<le> 2 ^ 36" using abs_mult_le [OF b4 assms(5)] by simp
  have b6: "\<bar>?i6\<bar> \<le> 2 ^ 27" using b5 by simp
  obtain r1 where r1: "js_mul v D = Some r1" "\<bar>r1 - ?i1\<bar> \<le> 1 / 2 ^ 32"
    unfolding js_mul_def using number_approx [of ?i1 ?i1 0 "2 ^ 20" "1 / 2 ^ 32"] b1 by auto
  have "\<bar>(r1 + s) - ?i2\<bar> \<le> 1 / 2 ^ 32" using r1(2) by simp
  then obtain r2 where r2: "js_add r1 s = Some r2" "\<bar>r2 - ?i2\<bar> \<le> 1 / 2 ^ 30"
    unfolding js_add_def using number_approx [of "r1 + s" ?i2 "1 / 2 ^ 32" "2 ^ 21" "1 / 2 ^ 30"] b2
    by auto
  have "\<bar>(r2 + c) - ?i3\<bar> \<le> 1 / 2 ^ 30" using r2(2) by simp
  then obtain r3 where r3: "js_add r2 c = Some r3" "\<bar>r3 - ?i3\<bar> \<le> 1 / 2 ^ 29"
    unfolding js_add_def using number_approx [of "r2 + c" ?i3 "1 / 2 ^ 30" "2 ^ 22" "1 / 2 ^ 29"] b3
    by auto
  have "\<bar>r3 * delta - ?i4\<bar> = \<bar>(r3 - ?i3) * delta\<bar>" by (simp add: algebra_simps)
  also have "\<dots> \<le> 1 / 2 ^ 29 * 2 ^ 10" by (rule abs_mult_le [OF r3(2) assms(6)])
  finally have "\<bar>r3 * delta - ?i4\<bar> \<le> 1 / 2 ^ 19" by simp
  then obtain r4 where r4: "js_mul r3 delta = Some r4" "\<bar>r4 - ?i4\<bar> \<le> 1 / 2 ^ 18"
    unfolding js_mul_def using number_approx [of "r3 * delta" ?i4 "1 / 2 ^ 19" "2 ^ 32" "1 / 2 ^ 18"] b4
    by auto
  have "\<bar>r4 * T - ?i5\<bar> = \<bar>(r4 - ?i4) * T\<bar>" by (simp add: algebra_simps)
  also have "\<dots> \<le> 1 / 2 ^ 18 * 2 ^ 4" by (rule abs_mult_le [OF r4(2) assms(5)])
  finally have "\<bar>r4 * T - ?i5\<bar> \<le> 1 / 2 ^ 14" by simp
  then obtain r5 where r5: "js_mul r4 T = Some r5" "\<bar>r5 - ?i5\<bar> \<le> 1 / 2 ^ 13"
    unfolding js_mul_def using number_approx [of "r4 * T" ?i5 "1 / 2 ^ 14" "2 ^ 36" "1 / 2 ^ 13"] b5
    by auto
  have "\<bar>r5 / 1000 - ?i6\<bar> = \<bar>r5 - ?i5\<bar> / 1000" by (simp add: diff_divide_distrib [symmetric])
  also have "\<dots> \<le> 1 / 2 ^ 13 / 1000" using r5(2) by (intro divide_right_mono) simp_all
  finally have "\<bar>r5 / 1000 - ?i6\<bar> \<le> 1 / 2 ^ 22" by simp
  then obtain r6 where r6: "js_div r5 1000 = Some r6" "\<bar>r6 - ?i6\<bar> \<le> 1 / 2 ^ 21"
    unfolding js_div_def using number_approx [of "r5 / 1000" ?i6 "1 / 2 ^ 22" "2 ^ 27" "1 / 2 ^ 21"] b6
    by auto
  have res: "displacement64 D T delta v s c = Some r6"
    by (simp add: displacement64_def r1 r2 r3 r4 r5 r6)
  have eq: "((v * D + s + c) * T) * (delta / 1000) = ?i6" by (simp add: mult_ac)
  show ?thesis unfolding eq using res r6(2) b6 by blast
qed

lemma angle64_approx:
  assumes "\<bar>av\<bar> \<le> 2 ^ 16" and "\<bar>D\<bar> \<le> 2 ^ 4" and "\<bar>T\<bar> \<le> 2 ^ 4" and "\<bar>delta\<bar> \<le> 2 ^ 10"
  shows "\<exists>d. angle64 D T delta av = Some d
           \<and> \<bar>d - av * D * T * (delta / 1000)\<bar> \<le> 1 / 2 ^ 21
           \<and> \<bar>av * D * T * (delta / 1000)\<bar> \<le> 2 ^ 27"
proof -
  let ?i1 = "av * delta"
  let ?i2 = "?i1 * T"
  let ?i3 = "?i2 * D"
  let ?i4 = "?i3 / 1000"
  have b1: "\<bar>?i1\<bar> \<le> 2 ^ 26" using abs_mult_le [OF assms(1,4)] by simp
  have b2: "\<bar>?i2\<bar> \<le> 2 ^ 30" using abs_mult_le [OF b1 assms(3)] by simp
  have b3: "\<bar>?i3\<bar> \<le> 2 ^ 34" using abs_mult_le [OF b2 assms(2)] by simp
  have b4: "\<bar>?i4\<bar> \<le> 2 ^ 27" using b3 by simp
  obtain r1 where r1: "js_mul av delta = Some r1" "\<bar>r1 - ?i1\<bar> \<le> 1 / 2 ^ 26"
    unfolding js_mul_def using number_approx [of ?i1 ?i1 0 "2 ^ 26" "1 / 2 ^ 26"] b1 by auto
  have "\<bar>r1 * T - ?i2\<bar> = \<bar>(r1 - ?i1) * T\<bar>" by (simp add: algebra_simps)
  also have "\<dots> \<le> 1 / 2 ^ 26 * 2 ^ 4" by (rule abs_mult_le [OF r1(2) assms(3)])
  finally have "\<bar>r1 * T - ?i2\<bar> \<le> 1 / 2 ^ 22" by simp
  then obtain r2 where r2: "js_mul r1 T = Some r2" "\<bar>r2 - ?i2\<bar> \<le> 1 / 2 ^ 21"
    unfolding js_mul_def using number_approx [of "r1 * T" ?i2 "1 / 2 ^ 22" "2 ^ 30" "1 / 2 ^ 21"] b2
    by auto
  have "\<bar>r2 * D - ?i3\<bar> = \<bar>(r2 - ?i2) * D\<bar>" by (simp add: algebra_simps)
  also have "\<dots> \<le> 1 / 2 ^ 21 * 2 ^ 4" by (rule abs_mult_le [OF r2(2) assms(2)])
  finally have "\<bar>r2 * D - ?i3\<bar> \<le> 1 / 2 ^ 17" by simp
  then obtain r3 where r3: "js_mul r2 D = Some r3" "\<bar>r3 - ?i3\<bar> \<le> 1 / 2 ^ 16"
    unfolding js_mul_def using number_approx [of "r2 * D" ?i3 "1 / 2 ^ 17" "2 ^ 34" "1 / 2 ^ 16"] b3
    by auto
  have "\<bar>r3 / 1000 - ?i4\<bar> = \<bar>r3 - ?i3\<bar> / 1000" by (simp add: diff_divide_distrib [symmetric])
  also have "\<dots> \<le> 1 / 2 ^ 16 / 1000" using r3(2) by (intro divide_right_mono) simp_all
  finally have "\<bar>r3 / 1000 - ?i4\<bar> \<le> 1 / 2 ^ 25" by simp
  then obtain r4 where r4: "js_div r3 1000 = Some r4" "\<bar>r4 - ?i4\<bar> \<le> 1 / 2 ^ 21"
    unfolding js_div_def using number_approx [of "r3 / 1000" ?i4 "1 / 2 ^ 25" "2 ^ 27" "1 / 2 ^ 21"] b4
    by auto
  have res: "angle64 D T delta av = Some r4"
    by (simp add: angle64_def r1 r2 r3 r4)
  have eq: "av * D * T * (delta / 1000) = ?i4" by (simp add: mult_ac)
  show ?thesis unfolding eq using res r4(2) b4 by blast
qed

lemma js_add_approx:
  assumes "\<bar>p\<bar> \<le> 2 ^ 30" and "\<bar>d - i\<bar> \<le> 1 / 2 ^ 21" and "\<bar>i\<bar> \<le> 2 ^ 27"
  shows "\<exists>r. js_add p d = Some r \<and> \<bar>r - (p + i)\<bar> \<le> 1 / 2 ^ 20"
proof -
  have "\<bar>(p + d) - (p + i)\<bar> \<le> 1 / 2 ^ 21" using assms(2) by simp
  moreover have "\<bar>p + i\<bar> \<le> 2 ^ 31" using assms(1,3) by simp
  ultimately show ?thesis
    unfolding js_add_def using number_approx [of "p + d" "p + i" "1 / 2 ^ 21" "2 ^ 31" "1 / 2 ^ 20"]
    by auto
qed

lemma fl_eval:
  assumes "2 powi e \<le> \<bar>x\<bar>" and "\<bar>x\<bar> < 2 powi (e + 1)" and "- 1022 \<le> e" and "e \<le> 1023"
  shows "fl x = of_int (roundTiesToEven (x / 2 powi (e - 52))) * 2 powi (e - 52)"
proof -
  have "x \<noteq> 0" using assms(1) by (smt (verit) zero_less_power_int abs_zero)
  then show ?thesis by (simp add: fl_def ulp_def binade_eq [OF assms])
qed

lemma number_eval:
  assumes "2 powi e \<le> \<bar>x\<bar>" and "\<bar>x\<bar> < 2 powi (e + 1)" and "- 1022 \<le> e" and "e < 1000"
  shows "number x = Some (of_int (roundTiesToEven (x / 2 powi (e - 52))) * 2 powi (e - 52))"
proof -
  have "(2::real) powi (e + 1) \<le> 2 powi 1000"
    using assms(4) by (intro power_int_increasing) simp_all
  then have a: "\<bar>x\<bar> \<le> 2 ^ 100 * 2 ^ 900" using assms(2) by (simp add: power_add [symmetric])
  have "\<bar>fl x - x\<bar> \<le> \<bar>x\<bar> * 2 powi (- 53) + 2 powi (- 1075)" by (rule fl_error)
  moreover have "\<bar>x\<bar> * 2 powi (- 53) \<le> 2 ^ 100 * 2 ^ 900 * 2 powi (- 53)"
    using a by (intro mult_right_mono) simp_all
  ultimately have "\<bar>fl x\<bar> \<le> 2 ^ 100 * 2 ^ 900 + 2 ^ 100 * 2 ^ 900 * 2 powi (- 53) + 2 powi (- 1075)"
    using a by linarith
  also have "\<dots> \<le> maxDouble" by (simp add: maxDouble_def)
  finally show ?thesis using assms(4) by (simp add: number_def fl_eval [OF assms(1,2,3)])
qed

lemma number_zero: "number 0 = Some 0"
  by (simp add: number_def fl_def maxDouble_def)

text \<open>
  One call on values of game scale returns finite numbers, each within \<open>2\<^sup>-\<^sup>2\<^sup>0\<close> of the
  real number that the formula of the update denotes.
\<close>

lemma Shape_update64_approx:
  assumes "\<bar>shape_x sh\<bar> \<le> 2 ^ 30" and "\<bar>shape_y sh\<bar> \<le> 2 ^ 30" and "\<bar>rotation sh\<bar> \<le> 2 ^ 30"
    and "\<bar>velocityX sh\<bar> \<le> 2 ^ 16" and "\<bar>velocityY sh\<bar> \<le> 2 ^ 16"
    and "\<bar>secondVelocityX sh\<bar> \<le> 2 ^ 16" and "\<bar>secondVelocityY sh\<bar> \<le> 2 ^ 16"
    and "\<bar>circularVelocityX sh\<bar> \<le> 2 ^ 16" and "\<bar>circularVelocityY sh\<bar> \<le> 2 ^ 16"
    and "\<bar>angularVelocity sh\<bar> \<le> 2 ^ 16"
    and "\<bar>D\<bar> \<le> 2 ^ 4" and "\<bar>T\<bar> \<le> 2 ^ 4" and "\<bar>delta\<bar> \<le> 2 ^ 10"
  shows "\<exists>x y r. Shape_update64 D T delta sh = Some (sh\<lparr>shape_x := x, shape_y := y, rotation := r\<rparr>)
      \<and> \<bar>x - (shape_x sh
               + ((velocityX sh * D + secondVelocityX sh + circularVelocityX sh) * T) * (delta / 1000))\<bar>
          \<le> 1 / 2 ^ 20
      \<and> \<bar>y - (shape_y sh
               + ((velocityY sh * D + secondVelocityY sh + circularVelocityY sh) * T) * (delta / 1000))\<bar>
          \<le> 1 / 2 ^ 20
      \<and> \<bar>r - (rotation sh + angularVelocity sh * D * T * (delta / 1000))\<bar> \<le> 1 / 2 ^ 20
      \<and> \<bar>((velocityX sh * D + secondVelocityX sh + circularVelocityX sh) * T) * (delta / 1000)\<bar> \<le> 2 ^ 27
      \<and> \<bar>((velocityY sh * D + secondVelocityY sh + circularVelocityY sh) * T) * (delta / 1000)\<bar> \<le> 2 ^ 27
      \<and> \<bar>angularVelocity sh * D * T * (delta / 1000)\<bar> \<le> 2 ^ 27"
proof -
  let ?ix = "((velocityX sh * D + secondVelocityX sh + circularVelocityX sh) * T) * (delta / 1000)"
  let ?iy = "((velocityY sh * D + secondVelocityY sh + circularVelocityY sh) * T) * (delta / 1000)"
  let ?ia = "angularVelocity sh * D * T * (delta / 1000)"
  obtain dx where dx: "displacement64 D T delta (velocityX sh) (secondVelocityX sh) (circularVelocityX sh)
      = Some dx" "\<bar>dx - ?ix\<bar> \<le> 1 / 2 ^ 21" "\<bar>?ix\<bar> \<le> 2 ^ 27"
    using displacement64_approx [OF assms(4,6,8,11,12,13)] by blast
  obtain dy where dy: "displacement64 D T delta (velocityY sh) (secondVelocityY sh) (circularVelocityY sh)
      = Some dy" "\<bar>dy - ?iy\<bar> \<le> 1 / 2 ^ 21" "\<bar>?iy\<bar> \<le> 2 ^ 27"
    using displacement64_approx [OF assms(5,7,9,11,12,13)] by blast
  obtain da where da: "angle64 D T delta (angularVelocity sh) = Some da"
      "\<bar>da - ?ia\<bar> \<le> 1 / 2 ^ 21" "\<bar>?ia\<bar> \<le> 2 ^ 27"
    using angle64_approx [OF assms(10,11,12,13)] by blast
  obtain x where x: "js_add (shape_x sh) dx = Some x" "\<bar>x - (shape_x sh + ?ix)\<bar> \<le> 1 / 2 ^ 20"
    using js_add_approx [OF assms(1) dx(2,3)] by blast
  obtain y where y: "js_add (shape_y sh) dy = Some y" "\<bar>y - (shape_y sh + ?iy)\<bar> \<le> 1 / 2 ^ 20"
    using js_add_approx [OF assms(2) dy(2,3)] by blast
  obtain r where r: "js_add (rotation sh) da = Some r" "\<bar>r - (rotation sh + ?ia)\<bar> \<le> 1 / 2 ^ 20"
    using js_add_approx [OF assms(3) da(2,3)] by blast
  have "Shape_update64 D T delta sh = Some (sh\<lparr>shape_x := x, shape_y := y, rotation := r\<rparr>)"
    by (simp add: Shape_update64_def dx(1) dy(1) da(1) x(1) y(1) r(1))
  with x(2) y(2) r(2) dx(3) dy(3) da(3) show ?thesis by blast
qed

text \<open>Two ticks against one tick of the same total time.\<close>

lemma Shape_update64_ticks:
  assumes "\<bar>shape_x sh\<bar> \<le> 2 ^ 29" and "\<bar>shape_y sh\<bar> \<le> 2 ^ 29" and "\<bar>rotation sh\<bar> \<le> 2 ^ 29"
    and "\<bar>velocityX sh\<bar> \<le> 2 ^ 16" and "\<bar>velocityY sh\<bar> \<le> 2 ^ 16"
    and "\<bar>secondVelocityX sh\<bar> \<le> 2 ^ 16" and "\<bar>secondVelocityY sh\<bar> \<le> 2 ^ 16"
    and "\<bar>circularVelocityX sh\<bar> \<le> 2 ^ 16" and "\<bar>circularVelocityY sh\<bar> \<le> 2 ^ 16"
    and "\<bar>angularVelocity sh\<bar> \<le> 2 ^ 16"
    and "\<bar>D\<bar> \<le> 2 ^ 4" and "\<bar>T\<bar> \<le> 2 ^ 4"
    and "\<bar>d1\<bar> \<le> 2 ^ 10" and "\<bar>d2\<bar> \<le> 2 ^ 10" and "\<bar>d1 + d2\<bar> \<le> 2 ^ 10"
  shows "\<exists>s1 s2 s12. Shape_update64 D T d1 sh = Some s1 \<and> Shape_update64 D T d2 s1 = Some s2
      \<and> Shape_update64 D T (d1 + d2) sh = Some s12
      \<and> \<bar>shape_x s2 - shape_x s12\<bar> \<le> 1 / 2 ^ 18
      \<and> \<bar>shape_y s2 - shape_y s12\<bar> \<le> 1 / 2 ^ 18
      \<and> \<bar>rotation s2 - rotation s12\<bar> \<le> 1 / 2 ^ 18"
proof -
  let ?vx = "velocityX sh * D + secondVelocityX sh + circularVelocityX sh"
  let ?vy = "velocityY sh * D + secondVelocityY sh + circularVelocityY sh"
  let ?va = "angularVelocity sh * D * T"
  have p: "\<bar>shape_x sh\<bar> \<le> 2 ^ 30" "\<bar>shape_y sh\<bar> \<le> 2 ^ 30" "\<bar>rotation sh\<bar> \<le> 2 ^ 30"
    using assms(1,2,3) by simp_all
  from Shape_update64_approx [OF p assms(4-12) assms(13)]
  obtain x1 y1 r1 where u1: "Shape_update64 D T d1 sh = Some (sh\<lparr>shape_x := x1, shape_y := y1, rotation := r1\<rparr>)"
    and x1: "\<bar>x1 - (shape_x sh + (?vx * T) * (d1 / 1000))\<bar> \<le> 1 / 2 ^ 20"
    and y1: "\<bar>y1 - (shape_y sh + (?vy * T) * (d1 / 1000))\<bar> \<le> 1 / 2 ^ 20"
    and r1: "\<bar>r1 - (rotation sh + ?va * (d1 / 1000))\<bar> \<le> 1 / 2 ^ 20"
    and i1: "\<bar>(?vx * T) * (d1 / 1000)\<bar> \<le> 2 ^ 27" "\<bar>(?vy * T) * (d1 / 1000)\<bar> \<le> 2 ^ 27"
      "\<bar>?va * (d1 / 1000)\<bar> \<le> 2 ^ 27"
    by blast
  define s1 where "s1 = sh\<lparr>shape_x := x1, shape_y := y1, rotation := r1\<rparr>"
  have f1: "shape_x s1 = x1" "shape_y s1 = y1" "rotation s1 = r1"
    "velocityX s1 = velocityX sh" "velocityY s1 = velocityY sh"
    "secondVelocityX s1 = secondVelocityX sh" "secondVelocityY s1 = secondVelocityY sh"
    "circularVelocityX s1 = circularVelocityX sh" "circularVelocityY s1 = circularVelocityY sh"
    "angularVelocity s1 = angularVelocity sh"
    by (simp_all add: s1_def)
  have k: "(2::real) ^ 29 + 2 ^ 27 + 1 / 2 ^ 20 \<le> 2 ^ 30" "3 * (1 / 2 ^ 20) \<le> (1 / 2 ^ 18 :: real)"
    by simp_all
  have q: "\<bar>shape_x s1\<bar> \<le> 2 ^ 30" "\<bar>shape_y s1\<bar> \<le> 2 ^ 30" "\<bar>rotation s1\<bar> \<le> 2 ^ 30"
  proof -
    show "\<bar>shape_x s1\<bar> \<le> 2 ^ 30" unfolding f1 using x1 i1(1) assms(1) k(1) by linarith
    show "\<bar>shape_y s1\<bar> \<le> 2 ^ 30" unfolding f1 using y1 i1(2) assms(2) k(1) by linarith
    show "\<bar>rotation s1\<bar> \<le> 2 ^ 30" unfolding f1 using r1 i1(3) assms(3) k(1) by linarith
  qed
  have v: "\<bar>velocityX s1\<bar> \<le> 2 ^ 16" "\<bar>velocityY s1\<bar> \<le> 2 ^ 16"
    "\<bar>secondVelocityX s1\<bar> \<le> 2 ^ 16" "\<bar>secondVelocityY s1\<bar> \<le> 2 ^ 16"
    "\<bar>circularVelocityX s1\<bar> \<le> 2 ^ 16" "\<bar>circularVelocityY s1\<bar> \<le> 2 ^ 16"
    "\<bar>angularVelocity s1\<bar> \<le> 2 ^ 16"
    unfolding f1 using assms(4-10) by simp_all
  from Shape_update64_approx [OF q v assms(11,12) assms(14)]
  obtain x2 y2 r2 where u2: "Shape_update64 D T d2 s1 = Some (s1\<lparr>shape_x := x2, shape_y := y2, rotation := r2\<rparr>)"
    and x2: "\<bar>x2 - (x1 + (?vx * T) * (d2 / 1000))\<bar> \<le> 1 / 2 ^ 20"
    and y2: "\<bar>y2 - (y1 + (?vy * T) * (d2 / 1000))\<bar> \<le> 1 / 2 ^ 20"
    and r2: "\<bar>r2 - (r1 + ?va * (d2 / 1000))\<bar> \<le> 1 / 2 ^ 20"
    unfolding f1 by blast
  from Shape_update64_approx [OF p assms(4-12) assms(15)]
  obtain x3 y3 r3 where u3: "Shape_update64 D T (d1 + d2) sh
        = Some (sh\<lparr>shape_x := x3, shape_y := y3, rotation := r3\<rparr>)"
    and x3: "\<bar>x3 - (shape_x sh + (?vx * T) * ((d1 + d2) / 1000))\<bar> \<le> 1 / 2 ^ 20"
    and y3: "\<bar>y3 - (shape_y sh + (?vy * T) * ((d1 + d2) / 1000))\<bar> \<le> 1 / 2 ^ 20"
    and r3: "\<bar>r3 - (rotation sh + ?va * ((d1 + d2) / 1000))\<bar> \<le> 1 / 2 ^ 20"
    by blast
  have l: "a * ((d1 + d2) / 1000) = a * (d1 / 1000) + a * (d2 / 1000)" for a :: real
    by (simp add: algebra_simps add_divide_distrib)
  have "\<bar>x2 - x3\<bar> \<le> 1 / 2 ^ 18" using x1 x2 x3 k(2) unfolding l by linarith
  moreover have "\<bar>y2 - y3\<bar> \<le> 1 / 2 ^ 18" using y1 y2 y3 k(2) unfolding l by linarith
  moreover have "\<bar>r2 - r3\<bar> \<le> 1 / 2 ^ 18" using r1 r2 r3 k(2) unfolding l by linarith
  ultimately show ?thesis
    using u1 u2 u3 unfolding s1_def [symmetric]
    by (intro exI [of _ s1] exI [of _ "s1\<lparr>shape_x := x2, shape_y := y2, rotation := r2\<rparr>"]
          exI [of _ "sh\<lparr>shape_x := x3, shape_y := y3, rotation := r3\<rparr>"]) simp
qed

text \<open>
  Claim C1, as amended. For an entity and a tick of game scale (coordinates and rotation up
  to \<open>2\<^sup>3\<^sup>0\<close>, velocities up to \<open>2\<^sup>1\<^sup>6\<close>, multipliers up to 16, at most 1024 ms), one call of
  \<open>Shape.update\<close> with elapsed time \<open>delta\<close> milliseconds, that is \<open>\<Delta>t = delta / 1000\<close> seconds,
  returns finite numbers and changes the position and the rotation only. The new position is
  the old one plus \<open>((primary * D + secondary + orbital) * T) * \<Delta>t\<close> and the new rotation the
  old one plus \<open>angularVelocity * D * T * \<Delta>t\<close>, each up to the rounding of the binary64
  operations, which is at most \<open>2\<^sup>-\<^sup>2\<^sup>0\<close>; with the secondary and orbital components zero the
  new position is within the same tolerance of the old one plus \<open>velocity * D * T * \<Delta>t\<close>.
  The update over the real numbers, \<open>Shape_update\<close>, is within that tolerance too.
\<close>

theorem Shape_update64_kinematics:
  assumes "\<bar>shape_x sh\<bar> \<le> 2 ^ 30" and "\<bar>shape_y sh\<bar> \<le> 2 ^ 30" and "\<bar>rotation sh\<bar> \<le> 2 ^ 30"
    and "\<bar>velocityX sh\<bar> \<le> 2 ^ 16" and "\<bar>velocityY sh\<bar> \<le> 2 ^ 16"
    and "\<bar>secondVelocityX sh\<bar> \<le> 2 ^ 16" and "\<bar>secondVelocityY sh\<bar> \<le> 2 ^ 16"
    and "\<bar>circularVelocityX sh\<bar> \<le> 2 ^ 16" and "\<bar>circularVelocityY sh\<bar> \<le> 2 ^ 16"
    and "\<bar>angularVelocity sh\<bar> \<le> 2 ^ 16"
    and "\<bar>D\<bar> \<le> 2 ^ 4" and "\<bar>T\<bar> \<le> 2 ^ 4" and "\<bar>delta\<bar> \<le> 2 ^ 10"
  shows "\<exists>sh'. Shape_update64 D T delta sh = Some sh'
      \<and> sh' = sh\<lparr>shape_x := shape_x sh', shape_y := shape_y sh', rotation := rotation sh'\<rparr>
      \<and> \<bar>shape_x sh' - (shape_x sh
               + ((velocityX sh * D + secondVelocityX sh + circularVelocityX sh) * T) * (delta / 1000))\<bar>
          \<le> 1 / 2 ^ 20
      \<and> \<bar>shape_y sh' - (shape_y sh
               + ((velocityY sh * D + secondVelocityY sh + circularVelocityY sh) * T) * (delta / 1000))\<bar>
          \<le> 1 / 2 ^ 20
      \<and> \<bar>rotation sh' - (rotation sh + angularVelocity sh * D * T * (delta / 1000))\<bar> \<le> 1 / 2 ^ 20
      \<and> (secondVelocityX sh = 0 \<and> secondVelocityY sh = 0
            \<and> circularVelocityX sh = 0 \<and> circularVelocityY sh = 0 \<longrightarrow>
            \<bar>shape_x sh' - (shape_x sh + velocityX sh * D * T * (delta / 1000))\<bar> \<le> 1 / 2 ^ 20
            \<and> \<bar>shape_y sh' - (shape_y sh + velocityY sh * D * T * (delta / 1000))\<bar> \<le> 1 / 2 ^ 20)
      \<and> \<bar>shape_x sh' - shape_x (Shape_update D T delta sh)\<bar> \<le> 1 / 2 ^ 20
      \<and> \<bar>shape_y sh' - shape_y (Shape_update D T delta sh)\<bar> \<le> 1 / 2 ^ 20
      \<and> \<bar>rotation sh' - rotation (Shape_update D T delta sh)\<bar> \<le> 1 / 2 ^ 20
      \<and> (\<forall>d1 d2. \<bar>shape_x sh\<bar> \<le> 2 ^ 29 \<and> \<bar>shape_y sh\<bar> \<le> 2 ^ 29 \<and> \<bar>rotation sh\<bar> \<le> 2 ^ 29
            \<and> \<bar>d1\<bar> \<le> 2 ^ 10 \<and> \<bar>d2\<bar> \<le> 2 ^ 10 \<and> \<bar>d1 + d2\<bar> \<le> 2 ^ 10 \<longrightarrow>
            (\<exists>s1 s2 s12. Shape_update64 D T d1 sh = Some s1 \<and> Shape_update64 D T d2 s1 = Some s2
               \<and> Shape_update64 D T (d1 + d2) sh = Some s12
               \<and> \<bar>shape_x s2 - shape_x s12\<bar> \<le> 1 / 2 ^ 18
               \<and> \<bar>shape_y s2 - shape_y s12\<bar> \<le> 1 / 2 ^ 18
               \<and> \<bar>rotation s2 - rotation s12\<bar> \<le> 1 / 2 ^ 18))"
proof -
  let ?ix = "((velocityX sh * D + secondVelocityX sh + circularVelocityX sh) * T) * (delta / 1000)"
  let ?iy = "((velocityY sh * D + secondVelocityY sh + circularVelocityY sh) * T) * (delta / 1000)"
  let ?ia = "angularVelocity sh * D * T * (delta / 1000)"
  from Shape_update64_approx [OF assms]
  obtain x y r where u: "Shape_update64 D T delta sh = Some (sh\<lparr>shape_x := x, shape_y := y, rotation := r\<rparr>)"
    and x: "\<bar>x - (shape_x sh + ?ix)\<bar> \<le> 1 / 2 ^ 20"
    and y: "\<bar>y - (shape_y sh + ?iy)\<bar> \<le> 1 / 2 ^ 20"
    and r: "\<bar>r - (rotation sh + ?ia)\<bar> \<le> 1 / 2 ^ 20"
    by blast
  define sh' where "sh' = sh\<lparr>shape_x := x, shape_y := y, rotation := r\<rparr>"
  have f: "shape_x sh' = x" "shape_y sh' = y" "rotation sh' = r"
    by (simp_all add: sh'_def)
  have 1: "Shape_update64 D T delta sh = Some sh'" using u by (simp add: sh'_def)
  have 2: "sh' = sh\<lparr>shape_x := shape_x sh', shape_y := shape_y sh', rotation := rotation sh'\<rparr>"
    by (simp add: sh'_def)
  have 3: "secondVelocityX sh = 0 \<and> secondVelocityY sh = 0
            \<and> circularVelocityX sh = 0 \<and> circularVelocityY sh = 0 \<longrightarrow>
            \<bar>shape_x sh' - (shape_x sh + velocityX sh * D * T * (delta / 1000))\<bar> \<le> 1 / 2 ^ 20
            \<and> \<bar>shape_y sh' - (shape_y sh + velocityY sh * D * T * (delta / 1000))\<bar> \<le> 1 / 2 ^ 20"
    using x y unfolding f by auto
  have m: "shape_x (Shape_update D T delta sh) = shape_x sh + ?ix"
    "shape_y (Shape_update D T delta sh) = shape_y sh + ?iy"
    "rotation (Shape_update D T delta sh) = rotation sh + ?ia"
    by (simp_all add: Shape_update_def Let_def mult_ac)
  have 4: "\<forall>d1 d2. \<bar>shape_x sh\<bar> \<le> 2 ^ 29 \<and> \<bar>shape_y sh\<bar> \<le> 2 ^ 29 \<and> \<bar>rotation sh\<bar> \<le> 2 ^ 29
            \<and> \<bar>d1\<bar> \<le> 2 ^ 10 \<and> \<bar>d2\<bar> \<le> 2 ^ 10 \<and> \<bar>d1 + d2\<bar> \<le> 2 ^ 10 \<longrightarrow>
            (\<exists>s1 s2 s12. Shape_update64 D T d1 sh = Some s1 \<and> Shape_update64 D T d2 s1 = Some s2
               \<and> Shape_update64 D T (d1 + d2) sh = Some s12
               \<and> \<bar>shape_x s2 - shape_x s12\<bar> \<le> 1 / 2 ^ 18
               \<and> \<bar>shape_y s2 - shape_y s12\<bar> \<le> 1 / 2 ^ 18
               \<and> \<bar>rotation s2 - rotation s12\<bar> \<le> 1 / 2 ^ 18)"
    using Shape_update64_ticks [OF _ _ _ assms(4-12)] by blast
  from 1 2 3 4 x y r show ?thesis unfolding m f [symmetric] by blast
qed

lemma ex_triangle_tick64:
  "Shape_update64 (1 / 2) 1 20 ex_triangle = Some (ex_triangle\<lparr>shape_x := 7057985041019699 / 2 ^ 46\<rparr>)"
proof -
  have n: "number 15 = Some 15" "number 300 = Some 300" "number 50 = Some 50"
    "number (3 / 10) = Some (5404319552844595 / 18014398509481984)"
    "number (1806844170501042995 / 18014398509481984) = Some (7057985041019699 / 70368744177664)"
    by (simp_all add: number_eval [where e = 3] number_eval [where e = 8]
          number_eval [where e = "- 2"] number_eval [where e = 6] number_eval [where e = 5]
          roundTiesToEven_def)
  have dx: "displacement64 (1 / 2) 1 20 30 0 0 = Some (5404319552844595 / 18014398509481984)"
    by (simp add: displacement64_def js_mul_def js_add_def js_div_def n)
  have dy: "displacement64 (1 / 2) 1 20 0 0 0 = Some 0"
    by (simp add: displacement64_def js_mul_def js_add_def js_div_def number_zero)
  have da: "angle64 (1 / 2) 1 20 0 = Some 0"
    by (simp add: angle64_def js_mul_def js_div_def number_zero)
  show ?thesis
    by (simp add: Shape_update64_def ex_triangle_def Shape_new_def dx dy da js_add_def n number_zero)
qed

theorem Shape_update64_kinematics_witness:
  "shape_x ex_triangle = 100 \<and> velocityX ex_triangle = 30
   \<and> secondVelocityX ex_triangle = 0 \<and> circularVelocityX ex_triangle = 0
   \<and> Shape_update64 (1 / 2) 1 20 ex_triangle
        = Some (ex_triangle\<lparr>shape_x := 7057985041019699 / 2 ^ 46\<rparr>)
   \<and> \<bar>7057985041019699 / 2 ^ 46 - (100 + 30 * (1 / 2) * 1 * (20 / 1000))\<bar> \<le> (1 / 2 ^ 20 :: real)"
proof -
  have e: "shape_x ex_triangle = 100" "shape_y ex_triangle = 50" "rotation ex_triangle = 0"
    "velocityX ex_triangle = 30" "velocityY ex_triangle = 0"
    "secondVelocityX ex_triangle = 0" "secondVelocityY ex_triangle = 0"
    "circularVelocityX ex_triangle = 0" "circularVelocityY ex_triangle = 0"
    "angularVelocity ex_triangle = 0"
    by (simp_all add: ex_triangle_def Shape_new_def)
  have "\<exists>sh'. Shape_update64 (1 / 2) 1 20 ex_triangle = Some sh'
      \<and> \<bar>shape_x sh' - (shape_x ex_triangle + velocityX ex_triangle * (1 / 2) * 1 * (20 / 1000))\<bar>
          \<le> 1 / 2 ^ 20"
    using Shape_update64_kinematics [of ex_triangle "1 / 2" 1 20] unfolding e by auto
  then have "\<bar>7057985041019699 / 2 ^ 46 - (100 + 30 * (1 / 2) * 1 * (20 / 1000))\<bar> \<le> (1 / 2 ^ 20 :: real)"
    unfolding ex_triangle_tick64 e by simp
  with e ex_triangle_tick64 show ?thesis by simp
qed

text \<open>
  Claim C1 as stated fails: the new position is not exactly the old one plus
  \<open>velocity * D * T * \<Delta>t\<close>. From \<open>x = 100\<close> with velocity 30, \<open>D = 1/2\<close> and \<open>T = 1\<close>, a tick of
  20 ms gives the double next to 100.3, which is not 100.3; and two ticks of 10 ms give the
  double after it, so that small ticks and one large tick differ.
\<close>

theorem Shape_update64_kinematics_counterexample:
  "Shape_update64 (1 / 2) 1 20 ex_triangle
     = Some (ex_triangle\<lparr>shape_x := 7057985041019699 / 2 ^ 46\<rparr>)
   \<and> (7057985041019699 / 2 ^ 46 :: real) \<noteq> 100 + 30 * (1 / 2) * 1 * (20 / 1000)
   \<and> Option.bind (Shape_update64 (1 / 2) 1 10 ex_triangle) (Shape_update64 (1 / 2) 1 10)
     = Some (ex_triangle\<lparr>shape_x := 7057985041019700 / 2 ^ 46\<rparr>)
   \<and> Option.bind (Shape_update64 (1 / 2) 1 10 ex_triangle) (Shape_update64 (1 / 2) 1 10)
     \<noteq> Shape_update64 (1 / 2) 1 20 ex_triangle"
proof -
  have n: "number 15 = Some 15" "number 150 = Some 150" "number 50 = Some 50"
    "number (3 / 20) = Some (5404319552844595 / 36028797018963968)"
    "number (3608284021449241395 / 36028797018963968) = Some (3523714864696525 / 35184372088832)"
    "number (3613688341002086195 / 36028797018963968) = Some (1764496260254925 / 17592186044416)"
    by (simp_all add: number_eval [where e = 3] number_eval [where e = 7]
          number_eval [where e = "- 3"] number_eval [where e = 6] number_eval [where e = 5]
          roundTiesToEven_def)
  have dx: "displacement64 (1 / 2) 1 10 30 0 0 = Some (5404319552844595 / 36028797018963968)"
    by (simp add: displacement64_def js_mul_def js_add_def js_div_def n)
  have dy: "displacement64 (1 / 2) 1 10 0 0 0 = Some 0"
    by (simp add: displacement64_def js_mul_def js_add_def js_div_def number_zero)
  have da: "angle64 (1 / 2) 1 10 0 = Some 0"
    by (simp add: angle64_def js_mul_def js_div_def number_zero)
  have 1: "Shape_update64 (1 / 2) 1 10 ex_triangle
             = Some (ex_triangle\<lparr>shape_x := 3523714864696525 / 35184372088832\<rparr>)"
    by (simp add: Shape_update64_def ex_triangle_def Shape_new_def dx dy da js_add_def n number_zero)
  have 2: "Shape_update64 (1 / 2) 1 10 (ex_triangle\<lparr>shape_x := 3523714864696525 / 35184372088832\<rparr>)
             = Some (ex_triangle\<lparr>shape_x := 7057985041019700 / 2 ^ 46\<rparr>)"
    by (simp add: Shape_update64_def ex_triangle_def Shape_new_def dx dy da js_add_def n number_zero)
  have 3: "Option.bind (Shape_update64 (1 / 2) 1 10 ex_triangle) (Shape_update64 (1 / 2) 1 10)
     = Some (ex_triangle\<lparr>shape_x := 7057985041019700 / 2 ^ 46\<rparr>)"
    by (simp add: 1 2)
  have 4: "ex_triangle\<lparr>shape_x := 7057985041019700 / 2 ^ 46\<rparr>
             \<noteq> ex_triangle\<lparr>shape_x := 7057985041019699 / 2 ^ 46\<rparr>"
    by (simp add: ex_triangle_def Shape_new_def)
  show ?thesis unfolding 3 ex_triangle_tick64 using 4 by simp
qed

subsection \<open>The per-tick loop\<close>

text \<open>What one iteration of the loop of \<open>Level.update\<close> leaves unchanged, and the flag it computes.\<close>

lemma updateShape_frame:
  assumes "updateShape d sh (b, s) = (sh', b', s')"
  shows "toBeRemoved sh' = toBeRemoved sh" and "oid sh' = oid sh" and "cls sh' = cls sh"
    and "score s' = score s" and "levelPassableScore s' = levelPassableScore s"
    and "sounds s' = sounds s" and "shapes s' = shapes s"
    and "difficultyAdjustment s' = difficultyAdjustment s" and "slowtimeFactor s' = slowtimeFactor s"
    and "messageText s' = messageText s" and "timeEvents s' = timeEvents s"
    and "squaresSpared s \<Longrightarrow> squaresSpared s'"
    and "trianglesSpared s \<Longrightarrow> trianglesSpared s'"
    and "achievements s' = achievements s"
  using assms
  by (auto simp: updateShape_def Let_def performDeathAnimation_def Shape_update_def split: if_splits)

lemma updateShape_only:
  assumes "updateShape d sh (b, s) = (sh', b', s')"
  shows "b' = (b \<and> ((cls sh = Architecture \<and> velocityY sh \<le> 0) \<or> cls sh = Area))"
  using assms
  by (cases "cls sh")
     (auto simp: updateShape_def Let_def performDeathAnimation_def Shape_update_def split: if_splits)

lemma updateShapes_frame:
  assumes "updateShapes d shs (b, s) = (shs', b', s')"
  shows "map toBeRemoved shs' = map toBeRemoved shs \<and> map oid shs' = map oid shs
       \<and> map cls shs' = map cls shs
       \<and> score s' = score s \<and> levelPassableScore s' = levelPassableScore s
       \<and> sounds s' = sounds s \<and> shapes s' = shapes s
       \<and> messageText s' = messageText s \<and> timeEvents s' = timeEvents s
       \<and> achievements s' = achievements s
       \<and> b' = (b \<and> (\<forall>sh \<in> set shs. (cls sh = Architecture \<and> velocityY sh \<le> 0) \<or> cls sh = Area))"
  using assms
proof (induction shs arbitrary: b s shs' b' s')
  case Nil
  then show ?case by simp
next
  case (Cons sh shs)
  obtain sh1 b1 s1 where u: "updateShape d sh (b, s) = (sh1, b1, s1)"
    by (metis prod_cases3)
  obtain shs2 b2 s2 where v: "updateShapes d shs (b1, s1) = (shs2, b2, s2)"
    by (metis prod_cases3)
  from Cons.prems u v have eq: "shs' = sh1 # shs2" "b' = b2" "s' = s2"
    by simp_all
  note ih = Cons.IH [OF v]
  note f = updateShape_frame [OF u] updateShape_only [OF u]
  show ?case
    unfolding eq using ih f by auto
qed

subsection \<open>Silent clearing and the clearance check\<close>

lemma clearShape_simps:
  "snd (clearShape sh) = []"
  "toBeRemoved (fst (clearShape sh)) = toBeRemoved sh"
  "oid (fst (clearShape sh)) = oid sh"
  "cls (fst (clearShape sh)) = cls sh"
  "shape_y (fst (clearShape sh)) = gameHeight + 100"
  "\<not> toBeRemoved sh \<Longrightarrow> dying (fst (clearShape sh))"
  "dying sh \<Longrightarrow> dying (fst (clearShape sh))"
  "healthPoints (fst (clearShape sh)) = healthPoints sh"
  by (simp_all add: clearShape_def performDeathAnimation_def Let_def)

lemma clearShapesNoSound_simps:
  "shapes (clearShapesNoSound s) = map (\<lambda>sh. fst (clearShape sh)) (shapes s)"
  "sounds (clearShapesNoSound s) = sounds s"
  "score (clearShapesNoSound s) = score s"
  "levelPassableScore (clearShapesNoSound s) = levelPassableScore s"
  "messageText (clearShapesNoSound s) = messageText s"
  "timeEvents (clearShapesNoSound s) = timeEvents s"
  "healthBar (clearShapesNoSound s) = healthBar s"
  by (simp_all add: clearShapesNoSound_def clearShape_simps)

lemma checkLevelCleared_simps:
  "shapes (checkLevelCleared s) = shapes s"
  "score (checkLevelCleared s) = score s"
  "filter (\<lambda>x. x = ''pop'') (sounds (checkLevelCleared s)) = filter (\<lambda>x. x = ''pop'') (sounds s)"
  by (simp_all add: checkLevelCleared_def Let_def unlockAchievement_def)

lemma checkLevelCleared_outcome_aux:
  "shapes s = [] \<Longrightarrow>
   reportedOutcome (checkLevelCleared s)
     = Some (if real_of_int (score s) \<ge> levelPassableScore s then Cleared else Failed)"
  by (simp add: checkLevelCleared_def Let_def unlockAchievement_def reportedOutcome_def)

subsection \<open>Completion of the fades\<close>

lemma deathFadeComplete_shapes:
  "shapes (deathFadeComplete r s)
     = map (\<lambda>x. if oid x = r \<and> dying x then x\<lparr>toBeRemoved := True\<rparr> else x) (shapes s)"
  by (simp add: deathFadeComplete_def)

lemma deathFadeComplete_fold_shapes:
  "shapes (fold deathFadeComplete rs s)
     = map (\<lambda>x. if oid x \<in> set rs \<and> dying x then x\<lparr>toBeRemoved := True\<rparr> else x) (shapes s)"
proof (induction rs arbitrary: s)
  case Nil
  then show ?case by simp
next
  case (Cons r rs)
  have pt: "(if oid (if oid x = r \<and> dying x then x\<lparr>toBeRemoved := True\<rparr> else x) \<in> set rs
                \<and> dying (if oid x = r \<and> dying x then x\<lparr>toBeRemoved := True\<rparr> else x)
             then (if oid x = r \<and> dying x then x\<lparr>toBeRemoved := True\<rparr> else x)\<lparr>toBeRemoved := True\<rparr>
             else (if oid x = r \<and> dying x then x\<lparr>toBeRemoved := True\<rparr> else x))
           = (if oid x \<in> set (r # rs) \<and> dying x then x\<lparr>toBeRemoved := True\<rparr> else x)"
    for x :: shape
    by (cases "oid x = r"; cases "dying x"; cases "oid x \<in> set rs"; simp)
  have "shapes (fold deathFadeComplete (r # rs) s) = shapes (fold deathFadeComplete rs (deathFadeComplete r s))"
    by simp
  also have "\<dots> = map (\<lambda>x. if oid x \<in> set rs \<and> dying x then x\<lparr>toBeRemoved := True\<rparr> else x)
                     (shapes (deathFadeComplete r s))"
    by (rule Cons.IH)
  also have "\<dots> = map (\<lambda>x. if oid x \<in> set (r # rs) \<and> dying x then x\<lparr>toBeRemoved := True\<rparr> else x) (shapes s)"
    by (simp only: deathFadeComplete_shapes map_map comp_def pt)
  finally show ?case .
qed

lemma deathFadeComplete_fold_frame:
  "score (fold deathFadeComplete rs s) = score s
   \<and> levelPassableScore (fold deathFadeComplete rs s) = levelPassableScore s
   \<and> sounds (fold deathFadeComplete rs s) = sounds s"
  by (induction rs arbitrary: s) (simp_all add: deathFadeComplete_def)

lemma fadesComplete_shapes:
  "shapes (fadesComplete s) = map (\<lambda>x. if dying x then x\<lparr>toBeRemoved := True\<rparr> else x) (shapes s)"
  unfolding fadesComplete_def deathFadeComplete_fold_shapes
  by (rule map_cong [OF refl]) simp

lemma fadesComplete_frame:
  "score (fadesComplete s) = score s"
  "levelPassableScore (fadesComplete s) = levelPassableScore s"
  "sounds (fadesComplete s) = sounds s"
  by (simp_all add: fadesComplete_def deathFadeComplete_fold_frame)

subsection \<open>The tick as a whole\<close>

lemma Level_update_cases:
  obtains shs b s1 where "updateShapes d (shapes s) (True, s) = (shs, b, s1)"
    and "Level_update d s =
           (let s3 = (if b then clearShapesNoSound (s1\<lparr>shapes := shs, architectureSpared := True\<rparr>)
                      else s1\<lparr>shapes := shs\<rparr>);
                s4 = s3\<lparr>shapes := filter (\<lambda>sh. \<not> toBeRemoved sh) (shapes s3)\<rparr>
            in if length (shapes s4) < length (shapes s3) then checkLevelCleared s4 else s4)"
proof -
  obtain shs b s1 where u: "updateShapes d (shapes s) (True, s) = (shs, b, s1)"
    by (metis prod_cases3)
  have "Level_update d s =
           (let s3 = (if b then clearShapesNoSound (s1\<lparr>shapes := shs, architectureSpared := True\<rparr>)
                      else s1\<lparr>shapes := shs\<rparr>);
                s4 = s3\<lparr>shapes := filter (\<lambda>sh. \<not> toBeRemoved sh) (shapes s3)\<rparr>
            in if length (shapes s4) < length (shapes s3) then checkLevelCleared s4 else s4)"
    unfolding Level_update_def u Let_def split_conv by (rule refl)
  with u show ?thesis by (rule that)
qed

lemma filter_map_toBeRemoved:
  assumes "map toBeRemoved ys = map toBeRemoved xs" and "map f ys = map f xs"
  shows "map f (filter (\<lambda>sh. \<not> toBeRemoved sh) ys) = map f (filter (\<lambda>sh. \<not> toBeRemoved sh) xs)"
  using assms
proof (induction xs arbitrary: ys)
  case Nil
  then show ?case by simp
next
  case (Cons x xs)
  from Cons.prems(1) obtain y ys' where ys: "ys = y # ys'" by (cases ys) simp_all
  from Cons.prems ys have h: "toBeRemoved y = toBeRemoved x" "f y = f x"
    and t: "map toBeRemoved ys' = map toBeRemoved xs" "map f ys' = map f xs"
    by simp_all
  from Cons.IH [OF t] h show ?case
    unfolding ys by simp
qed


lemma Level_update_oids:
  "map oid (shapes (Level_update d s)) = map oid (filter (\<lambda>sh. \<not> toBeRemoved sh) (shapes s))"
proof -
  obtain shs b s1 where u: "updateShapes d (shapes s) (True, s) = (shs, b, s1)"
    and e: "Level_update d s =
           (let s3 = (if b then clearShapesNoSound (s1\<lparr>shapes := shs, architectureSpared := True\<rparr>)
                      else s1\<lparr>shapes := shs\<rparr>);
                s4 = s3\<lparr>shapes := filter (\<lambda>sh. \<not> toBeRemoved sh) (shapes s3)\<rparr>
            in if length (shapes s4) < length (shapes s3) then checkLevelCleared s4 else s4)"
    by (rule Level_update_cases)
  note f = updateShapes_frame [OF u]
  have c: "map oid (filter (\<lambda>sh. \<not> toBeRemoved sh) (map (\<lambda>sh. fst (clearShape sh)) shs))
           = map oid (filter (\<lambda>sh. \<not> toBeRemoved sh) (shapes s))"
    by (rule filter_map_toBeRemoved) (simp_all add: comp_def clearShape_simps f)
  have n: "map oid (filter (\<lambda>sh. \<not> toBeRemoved sh) shs)
           = map oid (filter (\<lambda>sh. \<not> toBeRemoved sh) (shapes s))"
    by (rule filter_map_toBeRemoved) (simp_all add: f)
  show ?thesis
    unfolding e Let_def
    by (cases b) (simp_all add: checkLevelCleared_simps clearShapesNoSound_simps c n)
qed

lemma Level_update_forced:
  assumes "\<forall>sh \<in> set (shapes s). cls sh = Area \<or> (cls sh = Architecture \<and> velocityY sh \<le> 0)"
  shows "\<exists>shs t. map toBeRemoved shs = map toBeRemoved (shapes s)
           \<and> shapes t = filter (\<lambda>sh. \<not> toBeRemoved sh) (map (\<lambda>sh. fst (clearShape sh)) shs)
           \<and> sounds t = sounds s \<and> score t = score s
           \<and> levelPassableScore t = levelPassableScore s
           \<and> (Level_update d s = t \<or> Level_update d s = checkLevelCleared t)"
proof -
  obtain shs b s1 where u: "updateShapes d (shapes s) (True, s) = (shs, b, s1)"
    and e: "Level_update d s =
           (let s3 = (if b then clearShapesNoSound (s1\<lparr>shapes := shs, architectureSpared := True\<rparr>)
                      else s1\<lparr>shapes := shs\<rparr>);
                s4 = s3\<lparr>shapes := filter (\<lambda>sh. \<not> toBeRemoved sh) (shapes s3)\<rparr>
            in if length (shapes s4) < length (shapes s3) then checkLevelCleared s4 else s4)"
    by (rule Level_update_cases)
  note f = updateShapes_frame [OF u]
  from f assms have b: "b" by auto
  let ?s3 = "clearShapesNoSound (s1\<lparr>shapes := shs, architectureSpared := True\<rparr>)"
  let ?t = "?s3\<lparr>shapes := filter (\<lambda>sh. \<not> toBeRemoved sh) (shapes ?s3)\<rparr>"
  have "map toBeRemoved shs = map toBeRemoved (shapes s)" using f by simp
  moreover have "shapes ?t = filter (\<lambda>sh. \<not> toBeRemoved sh) (map (\<lambda>sh. fst (clearShape sh)) shs)"
    by (simp add: clearShapesNoSound_simps)
  moreover have "sounds ?t = sounds s" "score ?t = score s" "levelPassableScore ?t = levelPassableScore s"
    using f by (simp_all add: clearShapesNoSound_simps)
  moreover have "Level_update d s = ?t \<or> Level_update d s = checkLevelCleared ?t"
    unfolding e Let_def using b by simp
  ultimately show ?thesis by blast
qed

lemma Level_update_purge_all:
  assumes "\<forall>sh \<in> set (shapes s). toBeRemoved sh"
  shows "shapes (Level_update d s) = []"
    and "shapes s \<noteq> [] \<Longrightarrow>
         reportedOutcome (Level_update d s)
           = Some (if real_of_int (score s) \<ge> levelPassableScore s then Cleared else Failed)"
proof -
  obtain shs b s1 where u: "updateShapes d (shapes s) (True, s) = (shs, b, s1)"
    and e: "Level_update d s =
           (let s3 = (if b then clearShapesNoSound (s1\<lparr>shapes := shs, architectureSpared := True\<rparr>)
                      else s1\<lparr>shapes := shs\<rparr>);
                s4 = s3\<lparr>shapes := filter (\<lambda>sh. \<not> toBeRemoved sh) (shapes s3)\<rparr>
            in if length (shapes s4) < length (shapes s3) then checkLevelCleared s4 else s4)"
    by (rule Level_update_cases)
  note f = updateShapes_frame [OF u]
  have tb: "map toBeRemoved shs = map toBeRemoved (shapes s)" using f by simp
  have all: "\<forall>sh \<in> set shs. toBeRemoved sh"
  proof -
    have "set (map toBeRemoved shs) = set (map toBeRemoved (shapes s))" using tb by simp
    with assms show ?thesis by (auto simp: image_iff)
  qed
  have len: "length shs = length (shapes s)" using tb by (metis length_map)
  have f1: "filter (\<lambda>sh. \<not> toBeRemoved sh) shs = []" using all by (simp add: filter_empty_conv)
  have f2: "filter (\<lambda>sh. \<not> toBeRemoved sh) (map (\<lambda>sh. fst (clearShape sh)) shs) = []"
    using all by (simp add: filter_empty_conv clearShape_simps)
  show "shapes (Level_update d s) = []"
    unfolding e Let_def
    by (cases b) (simp_all add: checkLevelCleared_simps clearShapesNoSound_simps f1 f2)
  assume ne: "shapes s \<noteq> []"
  with len have ne': "shs \<noteq> []" by auto
  show "reportedOutcome (Level_update d s)
           = Some (if real_of_int (score s) \<ge> levelPassableScore s then Cleared else Failed)"
    unfolding e Let_def using ne' f
    by (cases b)
       (simp_all add: clearShapesNoSound_simps f1 f2 checkLevelCleared_outcome_aux)
qed

subsection \<open>Forced clearing of a level that cannot end\<close>

lemma ex_static_eval:
  "ex_static = (newGame 1)\<lparr>architectureSpared := False,
       shapes := [Shape_new Architecture 0 ''architecture'' 0 0 100 0 0 0
                    (GeomPolygon [(0, 0), (50, 0), (50, 50)])],
       staticId := 1, nextOid := 1\<rparr>"
  by (simp add: ex_static_def processLevelData_def spawnArchitecture_def Let_def minY_def newGame_def)

lemma ex_static_tick:
  "shapes (Level_update 16 ex_static)
     = [(Shape_new Architecture 0 ''architecture'' 0 0 100 0 0 0
           (GeomPolygon [(0, 0), (50, 0), (50, 50)]))\<lparr>shape_y := 700, dying := True\<rparr>]"
  by (simp add: ex_static_eval Level_update_def updateShape_def Shape_update_def Let_def newGame_def
      Shape_new_def clearShapesNoSound_def clearShape_def performDeathAnimation_def gameHeight_def)

text \<open>
  Claim C8, as amended. If every entity of the list is a resource zone or a static obstacle
  with no downward velocity, one call of \<open>Level.update\<close> marks every entity it keeps as
  dying and moves it below the death plane, plays no removal sound, and keeps in the list
  exactly the entities that were not yet flagged for removal: the count does not drop in
  that call. The list is empty, and the clearance check has reported the outcome, after the
  first call of \<open>update\<close> that follows the end of the 250 ms fades. No pointer event is
  involved.
\<close>

theorem Level_update_force_clear:
  assumes "\<forall>sh \<in> set (shapes s). cls sh = Area \<or> (cls sh = Architecture \<and> velocityY sh \<le> 0)"
  shows "(\<forall>sh \<in> set (shapes (Level_update delta s)). dying sh \<and> shape_y sh = gameHeight + 100)
       \<and> filter (\<lambda>x. x = ''pop'') (sounds (Level_update delta s)) = filter (\<lambda>x. x = ''pop'') (sounds s)
       \<and> map oid (shapes (Level_update delta s)) = map oid (filter (\<lambda>sh. \<not> toBeRemoved sh) (shapes s))
       \<and> shapes (Level_update delta2 (fadesComplete (Level_update delta s))) = []
       \<and> (shapes (Level_update delta s) \<noteq> [] \<longrightarrow>
            reportedOutcome (Level_update delta2 (fadesComplete (Level_update delta s)))
              = Some (if real_of_int (score s) \<ge> levelPassableScore s then Cleared else Failed))"
proof -
  from Level_update_forced [OF assms, of delta]
  obtain shs t where tb: "map toBeRemoved shs = map toBeRemoved (shapes s)"
    and sh: "shapes t = filter (\<lambda>sh. \<not> toBeRemoved sh) (map (\<lambda>sh. fst (clearShape sh)) shs)"
    and fr: "sounds t = sounds s" "score t = score s" "levelPassableScore t = levelPassableScore s"
    and lu: "Level_update delta s = t \<or> Level_update delta s = checkLevelCleared t"
    by blast
  let ?u = "Level_update delta s"
  have shu: "shapes ?u = shapes t" using lu by (auto simp: checkLevelCleared_simps)
  have scu: "score ?u = score s" using lu fr by (auto simp: checkLevelCleared_simps)
  have lpu: "levelPassableScore ?u = levelPassableScore s"
    using lu fr by (auto simp: checkLevelCleared_def Let_def unlockAchievement_def)
  have a: "\<forall>sh \<in> set (shapes ?u). dying sh \<and> shape_y sh = gameHeight + 100"
    unfolding shu sh by (auto simp: clearShape_simps)
  have b: "filter (\<lambda>x. x = ''pop'') (sounds ?u) = filter (\<lambda>x. x = ''pop'') (sounds s)"
    using lu fr by (auto simp: checkLevelCleared_simps)
  have c: "map oid (shapes ?u) = map oid (filter (\<lambda>sh. \<not> toBeRemoved sh) (shapes s))"
    by (rule Level_update_oids)
  have all: "\<forall>sh \<in> set (shapes (fadesComplete ?u)). toBeRemoved sh"
    using a by (auto simp: fadesComplete_shapes)
  have d: "shapes (Level_update delta2 (fadesComplete ?u)) = []"
    by (rule Level_update_purge_all(1) [OF all])
  have e: "shapes ?u \<noteq> [] \<longrightarrow> reportedOutcome (Level_update delta2 (fadesComplete ?u))
              = Some (if real_of_int (score s) \<ge> levelPassableScore s then Cleared else Failed)"
  proof
    assume "shapes ?u \<noteq> []"
    then have "shapes (fadesComplete ?u) \<noteq> []" by (simp add: fadesComplete_shapes)
    from Level_update_purge_all(2) [OF all this, of delta2]
    show "reportedOutcome (Level_update delta2 (fadesComplete ?u))
              = Some (if real_of_int (score s) \<ge> levelPassableScore s then Cleared else Failed)"
      by (simp add: fadesComplete_frame scu lpu)
  qed
  from a b c d e show ?thesis by blast
qed

theorem Level_update_force_clear_witness:
  "map cls (shapes ex_static) = [Architecture] \<and> map velocityY (shapes ex_static) = [0]
   \<and> map dying (shapes (Level_update 16 ex_static)) = [True]
   \<and> shapes (Level_update 16 ex_static) \<noteq> []
   \<and> sounds (Level_update 16 ex_static) = []
   \<and> shapes (Level_update 16 (fadesComplete (Level_update 16 ex_static))) = []
   \<and> reportedOutcome (Level_update 16 (fadesComplete (Level_update 16 ex_static))) = Some Cleared"
proof -
  have h: "\<forall>sh \<in> set (shapes ex_static). cls sh = Area \<or> (cls sh = Architecture \<and> velocityY sh \<le> 0)"
    by (simp add: ex_static_eval Shape_new_def)
  have s: "sounds (Level_update 16 ex_static) = []"
    by (simp add: ex_static_eval Level_update_def updateShape_def Shape_update_def Let_def newGame_def
      Shape_new_def clearShapesNoSound_def clearShape_def performDeathAnimation_def gameHeight_def)
  have v: "score ex_static = 0" "levelPassableScore ex_static = 0"
    by (simp_all add: ex_static_eval newGame_def)
  have c: "map cls (shapes ex_static) = [Architecture]" "map velocityY (shapes ex_static) = [0]"
    by (simp_all add: ex_static_eval Shape_new_def)
  from Level_update_force_clear [OF h, of 16 16] c s v show ?thesis
    by (simp add: ex_static_tick)
qed


text \<open>
  Claim C8 as stated fails: in the level of one static obstacle with vertical velocity 0 the
  hypothesis of the claim holds, and after one call of \<open>update\<close> the entity count is
  still 1, not 0.
\<close>

theorem Level_update_force_clear_counterexample:
  "map cls (shapes ex_static) = [Architecture] \<and> map velocityY (shapes ex_static) = [0]
   \<and> map dying (shapes ex_static) = [False]
   \<and> length (shapes (Level_update 16 ex_static)) = 1
   \<and> length (shapes (Level_update 16 ex_static)) \<noteq> 0"
  by (simp add: ex_static_tick) (simp add: ex_static_eval Shape_new_def)

subsection \<open>Outcome of a level\<close>

text \<open>
  Claim C6. When the entity list is empty, \<open>checkLevelCleared\<close> reports \<open>Cleared\<close> if and
  only if the score is at least the pass threshold, and \<open>Failed\<close> otherwise, and schedules
  the matching transition. A script line \<open>[5]\<close> sets the threshold to 5; with it a score
  of 6 is reported as \<open>Cleared\<close> and a score of 4 as \<open>Failed\<close>.
\<close>

theorem checkLevelCleared_outcome:
  assumes "shapes s = []"
  shows "(reportedOutcome (checkLevelCleared s) = Some Cleared) = (real_of_int (score s) \<ge> levelPassableScore s)
       \<and> (reportedOutcome (checkLevelCleared s) = Some Failed) = (real_of_int (score s) < levelPassableScore s)
       \<and> NextAction (real_of_int (score s) \<ge> levelPassableScore s) \<in> set (timeEvents (checkLevelCleared s))
       \<and> (case processLevelData s [JNum 5] of
             Inl err \<Rightarrow> False
           | Inr s1 \<Rightarrow>
               shapes s1 = [] \<and> levelPassableScore s1 = 5
               \<and> reportedOutcome (checkLevelCleared (s1\<lparr>score := 6\<rparr>)) = Some Cleared
               \<and> reportedOutcome (checkLevelCleared (s1\<lparr>score := 4\<rparr>)) = Some Failed)"
proof -
  have a: "reportedOutcome (checkLevelCleared s)
             = Some (if real_of_int (score s) \<ge> levelPassableScore s then Cleared else Failed)"
    by (rule checkLevelCleared_outcome_aux [OF assms])
  have n: "NextAction (real_of_int (score s) \<ge> levelPassableScore s) \<in> set (timeEvents (checkLevelCleared s))"
    using assms by (simp add: checkLevelCleared_def Let_def unlockAchievement_def)
  have p: "processLevelData s [JNum 5] = Inr (s\<lparr>levelPassableScore := 5\<rparr>)"
    by (simp add: processLevelData_def)
  have c6: "reportedOutcome (checkLevelCleared (s\<lparr>levelPassableScore := 5, score := 6\<rparr>)) = Some Cleared"
    using assms by (simp add: checkLevelCleared_outcome_aux)
  have c4: "reportedOutcome (checkLevelCleared (s\<lparr>levelPassableScore := 5, score := 4\<rparr>)) = Some Failed"
    using assms by (simp add: checkLevelCleared_outcome_aux)
  show ?thesis
    using a n c6 c4 assms by (simp add: p)
qed

theorem checkLevelCleared_outcome_witness:
  "shapes (newGame 1) = []
   \<and> reportedOutcome (checkLevelCleared ((newGame 1)\<lparr>levelPassableScore := 5, score := 6\<rparr>)) = Some Cleared
   \<and> reportedOutcome (checkLevelCleared ((newGame 1)\<lparr>levelPassableScore := 5, score := 4\<rparr>)) = Some Failed"
proof -
  have h: "shapes ((newGame 1)\<lparr>levelPassableScore := 5, score := 6\<rparr>) = []"
    by (simp add: newGame_def)
  have h': "shapes ((newGame 1)\<lparr>levelPassableScore := 5, score := 4\<rparr>) = []"
    by (simp add: newGame_def)
  from checkLevelCleared_outcome [OF h] checkLevelCleared_outcome [OF h'] show ?thesis
    by (simp add: newGame_def)
qed

subsection \<open>Evaluation of the concrete scenarios\<close>

lemmas script_defs = processLevelData_def spawnShape_def classOfLabel_def startsWith_def
  animateVelocities_def animateScale_def animateMovement_def animateCircularMovement_def
  bind_def parseInt_def Let_def

lemma ex_slowtime_level_eval:
  "ex_slowtime_level = (newGame 1)\<lparr>
       shapes := [Shape_new SlowTime 0 ''slowtime'' 0 300 300 0 0 0 (createGraphics SlowTime)],
       staticId := 1, nextOid := 1\<rparr>"
  by (simp add: ex_slowtime_level_def script_defs newGame_def)

lemma ex_armored_level_eval:
  "ex_armored_level = (newGame 1)\<lparr>trianglesSpared := False,
       shapes := [(Shape_new ArmoredTriangle 0 ''armored_3'' 0 100 100 0 0 0
                     (createGraphics ArmoredTriangle))\<lparr>healthPoints := Some 3\<rparr>],
       staticId := 1, nextOid := 1\<rparr>"
  by (simp add: ex_armored_level_def script_defs newGame_def)

lemma ex_intangible_level_eval:
  "ex_intangible_level = (newGame 1)\<lparr>trianglesSpared := False,
       shapes := [Shape_new Intangible 0 ''intangible'' 0 300 300 0 0 0 (createGraphics Intangible),
                  (Shape_new ArmoredTriangle 1 ''armored_1'' 1 100 100 0 0 0
                     (createGraphics ArmoredTriangle))\<lparr>healthPoints := Some 1\<rparr>],
       staticId := 2, nextOid := 2\<rparr>"
  by (simp add: ex_intangible_level_def script_defs newGame_def)

lemmas event_defs = pointerover_def pointerdown_def pointerout_def handleShapeInteraction_def
  takeDamage_def removeShape_def lookup_def performDeathAnimation_def startsWith_def
  keydown_S_def keydown_E_def finishSlowtime_def Shape_new_def newGame_def gameHeight_def Let_def

lemma ex_collected_eval:
  "pointerover ex_intangible_level 0 = (newGame 1)\<lparr>trianglesSpared := False, intangibleActive := True,
       shapes := [(Shape_new Intangible 0 ''intangible'' 0 300 300 0 0 0 (createGraphics Intangible))\<lparr>dying := True\<rparr>,
                  (Shape_new ArmoredTriangle 1 ''armored_1'' 1 100 100 0 0 0
                     (createGraphics ArmoredTriangle))\<lparr>healthPoints := Some 1\<rparr>],
       sounds := [''pop''],
       staticId := 2, nextOid := 2\<rparr>"
  by (simp add: ex_intangible_level_eval event_defs)

lemma ex_purged_eval:
  "Level_update 16 (fadesComplete (pointerover ex_intangible_level 0))
     = (newGame 1)\<lparr>trianglesSpared := False, intangibleActive := True,
       shapes := [(Shape_new ArmoredTriangle 1 ''armored_1'' 1 100 100 0 0 0
                     (createGraphics ArmoredTriangle))\<lparr>healthPoints := Some 1\<rparr>],
       sounds := [''pop''],
       staticId := 2, nextOid := 2\<rparr>"
  unfolding ex_collected_eval
  by (simp add: fadesComplete_def deathFadeComplete_def Level_update_def
        updateShape_def Shape_update_def checkLevelCleared_def event_defs)

lemma ex_hover_armored_eval:
  "ex_hover_armored
     = (newGame 1)\<lparr>trianglesSpared := False, intangible := True, pointer := (100, 100),
       shapes := [(Shape_new ArmoredTriangle 1 ''armored_1'' 1 100 100 0 0 0
                     (createGraphics ArmoredTriangle))\<lparr>healthPoints := Some 1\<rparr>],
       sounds := [''pop''], timeEvents := [IntangibleTimeout],
       staticId := 2, nextOid := 2\<rparr>"
  unfolding ex_hover_armored_def ex_purged_eval
  by (simp add: event_defs)

subsection \<open>Armored targets\<close>

lemma lookup_map:
  assumes "\<And>x. oid (f x) = oid x"
  shows "lookup (map f shs) r = map_option f (lookup shs r)"
  by (induction shs) (simp_all add: lookup_def assms)

lemma removeShape_lookup:
  assumes "lookup (shapes s) r = Some sh"
  shows "lookup (shapes (removeShape r s)) r = Some (fst (performDeathAnimation sh))"
    and "score (removeShape r s) = score s"
proof -
  have o: "oid sh = r" using assms
    by (auto simp: lookup_def dest: find_Some_iff [THEN iffD1])
  have "lookup (map (\<lambda>x. if oid x = r then fst (performDeathAnimation x) else x) (shapes s)) r
          = map_option (\<lambda>x. if oid x = r then fst (performDeathAnimation x) else x) (lookup (shapes s) r)"
    by (rule lookup_map) (simp add: performDeathAnimation_def)
  then show "lookup (shapes (removeShape r s)) r = Some (fst (performDeathAnimation sh))"
    using assms o by (simp add: removeShape_def)
  show "score (removeShape r s) = score s"
    using assms by (simp add: removeShape_def)
qed

lemma takeDamage_step:
  assumes "lookup (shapes s) r = Some sh" and "healthPoints sh = Some h"
  shows "\<exists>sh'. lookup (shapes (takeDamage s r)) r = Some sh'
           \<and> healthPoints sh' = Some (h - 1)
           \<and> dying sh' = (dying sh \<or> h = 1)
           \<and> score (takeDamage s r) = score s + (if h = 1 then 1 else 0)"
proof -
  have o: "oid sh = r" using assms(1)
    by (auto simp: lookup_def dest: find_Some_iff [THEN iffD1])
  let ?f = "\<lambda>x. if oid x = r then x\<lparr>healthPoints := Some (h - 1)\<rparr> else x"
  let ?s1 = "s\<lparr>shapes := map ?f (shapes s)\<rparr>"
  have l1: "lookup (shapes ?s1) r = Some (sh\<lparr>healthPoints := Some (h - 1)\<rparr>)"
  proof -
    have "lookup (map ?f (shapes s)) r = map_option ?f (lookup (shapes s) r)"
      by (rule lookup_map) simp
    then show ?thesis using assms o by simp
  qed
  show ?thesis
  proof (cases "h = 1")
    case True
    have td: "takeDamage s r = removeShape r (?s1\<lparr>score := score s + 1\<rparr>)"
      using assms unfolding True by (simp add: takeDamage_def Let_def cong: if_cong)
    have l2: "lookup (shapes (?s1\<lparr>score := score s + 1\<rparr>)) r = Some (sh\<lparr>healthPoints := Some (h - 1)\<rparr>)"
      using l1 by simp
    from removeShape_lookup [OF l2] show ?thesis
      unfolding td using True by (simp add: performDeathAnimation_def)
  next
    case False
    have td: "takeDamage s r = ?s1"
      using assms False by (simp add: takeDamage_def Let_def)
    show ?thesis unfolding td using l1 False by simp
  qed
qed

lemma takeDamage_iterated:
  assumes "lookup (shapes s) r = Some sh" and "healthPoints sh = Some h"
  shows "\<exists>shn. lookup (shapes (((\<lambda>t. takeDamage t r) ^^ n) s)) r = Some shn
           \<and> healthPoints shn = Some (h - int n)
           \<and> dying shn = (dying sh \<or> (1 \<le> h \<and> h \<le> int n))
           \<and> score (((\<lambda>t. takeDamage t r) ^^ n) s) = score s + (if 1 \<le> h \<and> h \<le> int n then 1 else 0)"
proof (induction n)
  case 0
  then show ?case using assms by auto
next
  case (Suc n)
  then obtain shn where l: "lookup (shapes (((\<lambda>t. takeDamage t r) ^^ n) s)) r = Some shn"
    and hp: "healthPoints shn = Some (h - int n)"
    and dy: "dying shn = (dying sh \<or> (1 \<le> h \<and> h \<le> int n))"
    and sc: "score (((\<lambda>t. takeDamage t r) ^^ n) s) = score s + (if 1 \<le> h \<and> h \<le> int n then 1 else 0)"
    by blast
  from takeDamage_step [OF l hp] obtain sh' where
    l': "lookup (shapes (takeDamage (((\<lambda>t. takeDamage t r) ^^ n) s) r)) r = Some sh'"
    and hp': "healthPoints sh' = Some (h - int n - 1)"
    and dy': "dying sh' = (dying shn \<or> h - int n = 1)"
    and sc': "score (takeDamage (((\<lambda>t. takeDamage t r) ^^ n) s) r)
               = score (((\<lambda>t. takeDamage t r) ^^ n) s) + (if h - int n = 1 then 1 else 0)"
    by blast
  have "healthPoints sh' = Some (h - int (Suc n))" using hp' by simp
  moreover have "dying sh' = (dying sh \<or> (1 \<le> h \<and> h \<le> int (Suc n)))"
    using dy' dy by auto
  moreover have "score (takeDamage (((\<lambda>t. takeDamage t r) ^^ n) s) r)
      = score s + (if 1 \<le> h \<and> h \<le> int (Suc n) then 1 else 0)"
    using sc' sc by auto
  ultimately show ?case using l' by simp
qed

lemma clearFriendly_healthPoints:
  "healthPoints (fst (clearFriendly sf x)) = healthPoints x"
  by (simp add: clearFriendly_def performDeathAnimation_def)

lemma removeShape_healthPoints:
  "map healthPoints (shapes (removeShape r s)) = map healthPoints (shapes s)"
  by (cases "lookup (shapes s) r")
     (simp_all add: removeShape_def performDeathAnimation_def comp_def cong: if_cong)

lemma handleShapeInteraction_healthPoints:
  "map healthPoints (shapes (handleShapeInteraction s r t)) = map healthPoints (shapes s)"
proof (cases "lookup (shapes s) r")
  case None
  then show ?thesis by (simp add: handleShapeInteraction_def)
next
  case (Some sh)
  have a: "map healthPoints (map (\<lambda>x. fst (clearFriendly (scaleFactor sh) x)) (shapes s))
             = map healthPoints (shapes s)"
    by (simp add: comp_def clearFriendly_healthPoints)
  show ?thesis
    using Some a
    by (auto simp: handleShapeInteraction_def Let_def removeShape_healthPoints
        split: option.splits)
qed

text \<open>
  Claim C3, as amended. Each click on an Armored Target (\<open>takeDamage\<close>) lowers its
  \<open>healthPoints\<close> by exactly one, and hovering never changes it. The counter is not
  floored: after \<open>n\<close> clicks it is \<open>h - n\<close>, below 0 once \<open>n > h\<close>. The target becomes
  dying, and the score grows by 1, at the click that takes the counter to 0, and the score
  grows only then: a target with three hits is removed by its third click with score +1, and
  any number of further clicks leaves the score at +1.
\<close>

theorem armored_hits:
  assumes "lookup (shapes s) r = Some sh" and "healthPoints sh = Some h"
  shows "(\<exists>shn. lookup (shapes (((\<lambda>t. takeDamage t r) ^^ n) s)) r = Some shn
            \<and> healthPoints shn = Some (h - int n)
            \<and> dying shn = (dying sh \<or> (1 \<le> h \<and> h \<le> int n)))
       \<and> score (((\<lambda>t. takeDamage t r) ^^ n) s) = score s + (if 1 \<le> h \<and> h \<le> int n then 1 else 0)
       \<and> map healthPoints (shapes (handleShapeInteraction s r' t)) = map healthPoints (shapes s)"
  using takeDamage_iterated [OF assms, of n] handleShapeInteraction_healthPoints [of s r' t]
  by blast

theorem armored_hits_witness:
  "map healthPoints (shapes ex_armored_level) = [Some 3]
   \<and> map healthPoints (shapes (((\<lambda>t. takeDamage t 0) ^^ 2) ex_armored_level)) = [Some 1]
   \<and> map dying (shapes (((\<lambda>t. takeDamage t 0) ^^ 2) ex_armored_level)) = [False]
   \<and> score (((\<lambda>t. takeDamage t 0) ^^ 2) ex_armored_level) = 0
   \<and> map healthPoints (shapes (((\<lambda>t. takeDamage t 0) ^^ 3) ex_armored_level)) = [Some 0]
   \<and> map dying (shapes (((\<lambda>t. takeDamage t 0) ^^ 3) ex_armored_level)) = [True]
   \<and> score (((\<lambda>t. takeDamage t 0) ^^ 3) ex_armored_level) = 1
   \<and> score (((\<lambda>t. takeDamage t 0) ^^ 5) ex_armored_level) = 1"
proof -
  let ?sh = "(Shape_new ArmoredTriangle 0 ''armored_3'' 0 100 100 0 0 0
               (createGraphics ArmoredTriangle))\<lparr>healthPoints := Some 3\<rparr>"
  have l: "lookup (shapes ex_armored_level) 0 = Some ?sh"
    unfolding ex_armored_level_eval by (simp add: lookup_def Shape_new_def)
  have h: "healthPoints ?sh = Some 3" by simp
  have e: "score (((\<lambda>t. takeDamage t 0) ^^ 5) ex_armored_level) = 1"
    using armored_hits [OF l h, of 5] by (simp add: ex_armored_level_eval newGame_def)
  have "map healthPoints (shapes ex_armored_level) = [Some 3]"
    unfolding ex_armored_level_eval by simp
  moreover have "map healthPoints (shapes (((\<lambda>t. takeDamage t 0) ^^ 2) ex_armored_level)) = [Some 1]
   \<and> map dying (shapes (((\<lambda>t. takeDamage t 0) ^^ 2) ex_armored_level)) = [False]
   \<and> score (((\<lambda>t. takeDamage t 0) ^^ 2) ex_armored_level) = 0
   \<and> map healthPoints (shapes (((\<lambda>t. takeDamage t 0) ^^ 3) ex_armored_level)) = [Some 0]
   \<and> map dying (shapes (((\<lambda>t. takeDamage t 0) ^^ 3) ex_armored_level)) = [True]
   \<and> score (((\<lambda>t. takeDamage t 0) ^^ 3) ex_armored_level) = 1"
    unfolding ex_armored_level_eval by (simp add: eval_nat_numeral event_defs)
  ultimately show ?thesis using e by simp
qed

text \<open>
  Claim C3 as stated fails: a fourth click on the target of three hits, while it fades,
  takes \<open>healthPoints\<close> to -1, below 0.
\<close>

theorem armored_hits_counterexample:
  "map healthPoints (shapes ex_armored_level) = [Some 3]
   \<and> map healthPoints
        (shapes (pointerdown (pointerdown (pointerdown (pointerdown ex_armored_level 0) 0) 0) 0))
       = [Some (- 1)]
   \<and> (- 1 :: int) < 0"
  unfolding ex_armored_level_eval by (simp add: event_defs)


subsection \<open>Intangibility and dying entities: where the code departs from the claims\<close>

text \<open>
  Claim C2, at a failing input. The player has collected the Intangibility power-up and
  pressed E: intangibility is active and the score is 0. A click on the Armored Target with
  one hit still takes effect: the score becomes 1 and the target is dying. The click handler
  \<open>takeDamage\<close> does not test \<open>intangible\<close>, unlike \<open>handleShapeInteraction\<close>.
\<close>

theorem click_while_intangible:
  "intangible (keydown_E phaser (pointerover ex_intangible_level 0)) = True
   \<and> score (keydown_E phaser (pointerover ex_intangible_level 0)) = 0
   \<and> map dying (shapes (keydown_E phaser (pointerover ex_intangible_level 0))) = [True, False]
   \<and> score (pointerdown (keydown_E phaser (pointerover ex_intangible_level 0)) 1) = 1
   \<and> map dying (shapes (pointerdown (keydown_E phaser (pointerover ex_intangible_level 0)) 1)) = [True, True]
   \<and> map healthPoints (shapes (pointerdown (keydown_E phaser (pointerover ex_intangible_level 0)) 1)) = [None, Some 0]"
  unfolding ex_collected_eval by (simp add: event_defs)

text \<open>
  Claim C4, at a failing input. The player hovers the Slow-Time power-up (it is armed and the
  entity is dying), presses S (slow time is active, the power-up is no longer armed) and
  hovers the fading entity again: the power-up is armed again.
  \<open>handleShapeInteraction\<close> tests \<open>shape.dying\<close> only after it has armed the power-up.
\<close>

theorem dying_pickup_rearms_slowtime:
  "map dying (shapes (keydown_S (pointerover ex_slowtime_level 0))) = [True]
   \<and> slowtimeActive (keydown_S (pointerover ex_slowtime_level 0)) = False
   \<and> slowtime (keydown_S (pointerover ex_slowtime_level 0)) = True
   \<and> slowtimeActive (pointerover (keydown_S (pointerover ex_slowtime_level 0)) 0) = True"
  unfolding ex_slowtime_level_eval by (simp add: event_defs)

text \<open>
  Claim C5, at a failing input. The pointer rests on an Armored Target with one hit while
  intangibility is active; hovering alone changes nothing. When intangibility ends (E pressed
  again, or the one-second timer), the catch-up pass of \<open>checkAllShapes\<close> takes the Armored
  Target for a \<open>Triangle\<close> (\<open>instanceof\<close> holds for the subclass) and dispatches it as
  \<open>'triangle'\<close>: it is removed with score +1, its hit counter untouched, and no click has
  occurred.
\<close>

theorem catch_up_removes_armored:
  "intangible ex_hover_armored = True
   \<and> map cls (shapes ex_hover_armored) = [ArmoredTriangle]
   \<and> map dying (shapes ex_hover_armored) = [False]
   \<and> score ex_hover_armored = 0
   \<and> pointerover ex_hover_armored 1 = ex_hover_armored
   \<and> score (keydown_E phaser ex_hover_armored) = 1
   \<and> map dying (shapes (keydown_E phaser ex_hover_armored)) = [True]
   \<and> map healthPoints (shapes (keydown_E phaser ex_hover_armored)) = [Some 1]
   \<and> score (intangibleTimeout phaser ex_hover_armored) = 1
   \<and> map dying (shapes (intangibleTimeout phaser ex_hover_armored)) = [True]"
  unfolding ex_hover_armored_eval
  by (simp add: event_defs finishIntangible_def intangibleTimeout_def
        checkAllShapes_def checkShape_def phaser_def phaser_Triangle_Contains_def createGraphics_def)

subsection \<open>Resource zone and resource bar\<close>

lemma lookup_oid: "lookup shs r = Some sh \<Longrightarrow> oid sh = r"
  by (auto simp: lookup_def dest: find_Some_iff [THEN iffD1])







subsection \<open>Script interpreter\<close>





















subsection \<open>Reloading a level\<close>



lemma removeShape_simps:
  "map oid (shapes (removeShape r s)) = map oid (shapes s)"
  "map toBeRemoved (shapes (removeShape r s)) = map toBeRemoved (shapes s)"
  "timeEvents (removeShape r s) = timeEvents s"
  "score (removeShape r s) = score s"
  by (cases "lookup (shapes s) r";
      simp add: removeShape_def performDeathAnimation_def comp_def cong: if_cong)+

























end
